theory Spec2Isabelle
  imports Complex_Main
begin

section \<open>JavaScript numbers\<close>

text \<open>
  A value of TypeScript type \<^verbatim>\<open>number\<close> as the hover tool meets it at run time: a finite
  number, one of the two infinities, \<^verbatim>\<open>NaN\<close>, or \<^verbatim>\<open>undefined\<close> (what an array read out
  of range yields).  A finite number is the real it stands for.  Every arithmetic operator
  first coerces \<^verbatim>\<open>undefined\<close> to \<^verbatim>\<open>NaN\<close>, and returns the double nearest to the exact
  result, as JavaScript does; the sign of zero is not modelled.
\<close>

datatype jsval = Num real | Pos_Inf | Neg_Inf | NaN | Undefined

subsection \<open>Rounding to a double\<close>

text \<open>The nearest integer, a tie going to the even one.\<close>

definition round_even :: "real \<Rightarrow> int" where
  "round_even t =
     (let f = \<lfloor>t\<rfloor>
      in if t - of_int f < 1 / 2 then f
         else if 1 / 2 < t - of_int f then f + 1
         else if even f then f else f + 1)"

text \<open>
  The binary exponent of a number, not below that of the smallest normal double, and the
  unit in the last place of the 53-bit significand at that exponent.
\<close>

definition binade :: "real \<Rightarrow> int" where
  "binade x = max \<lfloor>log 2 \<bar>x\<bar>\<rfloor> (- 1022)"

definition ulp :: "real \<Rightarrow> real" where
  "ulp x = 2 powr (of_int (binade x) - 52)"

definition round_to_ulp :: "real \<Rightarrow> real" where
  "round_to_ulp x = of_int (round_even (x / ulp x)) * ulp x"

definition max_double :: real where
  "max_double = 2 ^ 1024 - 2 ^ 971"

text \<open>Round to nearest, ties to even; a result beyond the largest double is an infinity.\<close>

definition to_double :: "real \<Rightarrow> jsval" where
  "to_double x =
     (let y = round_to_ulp x
      in if max_double < y then Pos_Inf else if y < - max_double then Neg_Inf else Num y)"

subsection \<open>The operators\<close>

fun js_neg :: "jsval \<Rightarrow> jsval" where
  "js_neg (Num a) = Num (- a)"
| "js_neg Pos_Inf = Neg_Inf"
| "js_neg Neg_Inf = Pos_Inf"
| "js_neg NaN = NaN"
| "js_neg Undefined = NaN"

fun js_add :: "jsval \<Rightarrow> jsval \<Rightarrow> jsval" where
  "js_add (Num a) (Num b) = to_double (a + b)"
| "js_add (Num a) Pos_Inf = Pos_Inf"
| "js_add (Num a) Neg_Inf = Neg_Inf"
| "js_add Pos_Inf (Num b) = Pos_Inf"
| "js_add Pos_Inf Pos_Inf = Pos_Inf"
| "js_add Neg_Inf (Num b) = Neg_Inf"
| "js_add Neg_Inf Neg_Inf = Neg_Inf"
| "js_add _ _ = NaN"

definition js_sub :: "jsval \<Rightarrow> jsval \<Rightarrow> jsval" where
  "js_sub a b = js_add a (js_neg b)"

fun js_sign_inf :: "real \<Rightarrow> jsval" where
  "js_sign_inf a = (if a = 0 then NaN else if 0 < a then Pos_Inf else Neg_Inf)"

fun js_mul :: "jsval \<Rightarrow> jsval \<Rightarrow> jsval" where
  "js_mul (Num a) (Num b) = to_double (a * b)"
| "js_mul (Num a) Pos_Inf = js_sign_inf a"
| "js_mul (Num a) Neg_Inf = js_sign_inf (- a)"
| "js_mul Pos_Inf (Num b) = js_sign_inf b"
| "js_mul Neg_Inf (Num b) = js_sign_inf (- b)"
| "js_mul Pos_Inf Pos_Inf = Pos_Inf"
| "js_mul Neg_Inf Neg_Inf = Pos_Inf"
| "js_mul Pos_Inf Neg_Inf = Neg_Inf"
| "js_mul Neg_Inf Pos_Inf = Neg_Inf"
| "js_mul _ _ = NaN"

fun js_div :: "jsval \<Rightarrow> jsval \<Rightarrow> jsval" where
  "js_div (Num a) (Num b) = (if b = 0 then js_sign_inf a else to_double (a / b))"
| "js_div (Num a) Pos_Inf = Num 0"
| "js_div (Num a) Neg_Inf = Num 0"
| "js_div Pos_Inf (Num b) = (if 0 \<le> b then Pos_Inf else Neg_Inf)"
| "js_div Neg_Inf (Num b) = (if 0 \<le> b then Neg_Inf else Pos_Inf)"
| "js_div _ _ = NaN"

fun js_abs :: "jsval \<Rightarrow> jsval" where
  "js_abs (Num a) = Num \<bar>a\<bar>"
| "js_abs Pos_Inf = Pos_Inf"
| "js_abs Neg_Inf = Pos_Inf"
| "js_abs NaN = NaN"
| "js_abs Undefined = NaN"

fun js_sqrt :: "jsval \<Rightarrow> jsval" where
  "js_sqrt (Num a) = (if a < 0 then NaN else to_double (sqrt a))"
| "js_sqrt Pos_Inf = Pos_Inf"
| "js_sqrt _ = NaN"

text \<open>\<^verbatim>\<open>Math.round\<close>: the nearest integer, a half rounded up.\<close>

fun js_round :: "jsval \<Rightarrow> jsval" where
  "js_round (Num a) = Num (of_int \<lfloor>a + 1 / 2\<rfloor>)"
| "js_round Pos_Inf = Pos_Inf"
| "js_round Neg_Inf = Neg_Inf"
| "js_round NaN = NaN"
| "js_round Undefined = NaN"

text \<open>The comparison \<^verbatim>\<open><\<close>: false as soon as one side is \<^verbatim>\<open>NaN\<close>.\<close>

fun js_lt :: "jsval \<Rightarrow> jsval \<Rightarrow> bool" where
  "js_lt (Num a) (Num b) = (a < b)"
| "js_lt (Num a) Pos_Inf = True"
| "js_lt Neg_Inf (Num b) = True"
| "js_lt Neg_Inf Pos_Inf = True"
| "js_lt _ _ = False"

text \<open>An array read \<^verbatim>\<open>xs[i]\<close>: \<^verbatim>\<open>undefined\<close> out of range.\<close>

definition aget :: "jsval list \<Rightarrow> nat \<Rightarrow> jsval" where
  "aget xs i = (if i < length xs then xs ! i else Undefined)"

section \<open>Geometry queries\<close>

text \<open>
  \<^verbatim>\<open>core/geometry\<close>: the hover tool builds point and span geometries; the other variants of
  the union (rectangle, polygon) only ever reach the guard at the head of the update step,
  so they are carried without their fields.
\<close>

datatype direction = Dir_h | Dir_v

datatype geometry =
    Point_geometry jsval jsval
  | Span_geometry direction jsval jsval
  | Other_geometry

text \<open>The distance of the plane.\<close>

definition euclid :: "real \<times> real \<Rightarrow> real \<times> real \<Rightarrow> real" where
  "euclid p q = sqrt ((fst p - fst q)\<^sup>2 + (snd p - snd q)\<^sup>2)"

definition finite_point :: "jsval \<times> jsval \<Rightarrow> (real \<times> real) option" where
  "finite_point p = (case p of (Num a, Num b) \<Rightarrow> Some (a, b) | _ \<Rightarrow> None)"

text \<open>
  Modelled from the spec: \<^verbatim>\<open>hittest.dist_2_pts\<close> of \<^verbatim>\<open>core/hittest\<close> is not part of the
  sources at hand; the specification calls the quantity compared in point mode the
  Euclidean distance between the sample and the pointer.  That distance is taken as it is
  for two finite points; where a coordinate is not finite it is what the operators give.
\<close>

definition dist_2_pts :: "jsval \<times> jsval \<Rightarrow> jsval \<times> jsval \<Rightarrow> jsval" where
  "dist_2_pts p0 p1 =
     (case (finite_point p0, finite_point p1) of
        (Some p, Some q) \<Rightarrow> Num (euclid p q)
      | _ \<Rightarrow>
          (let ddx = js_sub (fst p0) (fst p1); ddy = js_sub (snd p0) (snd p1)
           in js_sqrt (js_add (js_mul ddx ddx) (js_mul ddy ddy))))"

section \<open>Line hits\<close>

definition nearest_line_hit ::
  "nat \<Rightarrow> geometry \<Rightarrow> jsval \<Rightarrow> jsval \<Rightarrow> jsval list \<Rightarrow> jsval list \<Rightarrow> (jsval \<times> jsval) \<times> nat" where
  "nearest_line_hit i geom sx sy dx dy =
     (let d1 = (aget dx i, aget dy i);
          d2 = (aget dx (i + 1), aget dy (i + 1));
          dists =
            (case geom of
               Span_geometry Dir_h _ _ \<Rightarrow>
                 (js_abs (js_sub (fst d1) sx), js_abs (js_sub (fst d2) sx))
             | Span_geometry Dir_v _ _ \<Rightarrow>
                 (js_abs (js_sub (snd d1) sy), js_abs (js_sub (snd d2) sy))
             | _ \<Rightarrow> (dist_2_pts d1 (sx, sy), dist_2_pts d2 (sx, sy)))
      in if js_lt (fst dists) (snd dists) then (d1, i) else (d2, i + 1))"

definition line_hit :: "jsval list \<Rightarrow> jsval list \<Rightarrow> nat \<Rightarrow> (jsval \<times> jsval) \<times> nat" where
  "line_hit xs ys ind = ((aget xs ind, aget ys ind), ind)"

section \<open>The tooltip annotation\<close>

text \<open>The enumerations of \<^verbatim>\<open>core/enums\<close> that the tooltip reads.\<close>

datatype anchor =
    Top_left | Top | Top_center | Top_right
  | Left | Center_left | Center | Center_center | Right | Center_right
  | Bottom_left | Bottom | Bottom_center | Bottom_right

datatype valign = V_top | V_center | V_bottom

datatype halign = H_left | H_center | H_right

datatype tooltip_attachment =
    Horizontal | Vertical | Attach_left | Attach_right | Attach_above | Attach_below

text \<open>The four sides that are left of an attachment once its two axes are resolved.\<close>

datatype side = Side_right | Side_left | Side_below | Side_above

text \<open>\<^verbatim>\<open>Tooltip.position\<close>: an anchor name or a pair of screen coordinates; \<^verbatim>\<open>null\<close> is \<open>None\<close>.\<close>

datatype position = At_anchor anchor | At_coords jsval jsval

text \<open>
  The properties of a \<^verbatim>\<open>Tooltip\<close> model.  The content of a hover tooltip is a container
  node; it is carried as the list of its children.
\<close>

record 'n tooltip =
  position :: "position option"
  content :: "'n list"
  attachment :: tooltip_attachment
  show_arrow :: bool
  custom :: bool
  visible :: bool

definition clear :: "'n tooltip \<Rightarrow> 'n tooltip" where
  "clear t = t\<lparr>position := None\<rparr>"

text \<open>
  Modelled from the spec: the bounding box class (\<^verbatim>\<open>BBox\<close> of \<^verbatim>\<open>core/util/bbox\<close>) is not part
  of the sources at hand.  A box is its four edges; its horizontal and vertical centers are
  the midpoints of opposite edges (taken as they are for finite edges), and it contains the
  points between its edges, the edges included.
\<close>

record bbox =
  bb_left :: jsval
  bb_right :: jsval
  bb_top :: jsval
  bb_bottom :: jsval

definition midpoint_of :: "jsval \<Rightarrow> jsval \<Rightarrow> jsval" where
  "midpoint_of a b =
     (case (a, b) of
        (Num x, Num y) \<Rightarrow> Num ((x + y) / 2)
      | _ \<Rightarrow> js_div (js_add a b) (Num 2))"

definition hcenter :: "bbox \<Rightarrow> jsval" where
  "hcenter b = midpoint_of (bb_left b) (bb_right b)"

definition vcenter :: "bbox \<Rightarrow> jsval" where
  "vcenter b = midpoint_of (bb_top b) (bb_bottom b)"

definition js_le :: "jsval \<Rightarrow> jsval \<Rightarrow> bool" where
  "js_le a b = (js_lt a b \<or> (case (a, b) of
       (Num x, Num y) \<Rightarrow> x = y
     | (Pos_Inf, Pos_Inf) \<Rightarrow> True
     | (Neg_Inf, Neg_Inf) \<Rightarrow> True
     | _ \<Rightarrow> False))"

definition contains :: "bbox \<Rightarrow> jsval \<Rightarrow> jsval \<Rightarrow> bool" where
  "contains b x y =
     (js_le (bb_left b) x \<and> js_le x (bb_right b) \<and> js_le (bb_top b) y \<and> js_le y (bb_bottom b))"

text \<open>
  The tooltip's element, as far as repositioning touches it: whether it is displayed, its
  class list, and the three inline styles.  A style text is \<^verbatim>\<open>`${v}px`\<close> or the empty string.
  The side classes are those of \<^verbatim>\<open>styles/tooltips.css\<close>.
\<close>

datatype css_class = Cls_right | Cls_left | Cls_above | Cls_below | Cls_arrow | Cls_other string

datatype css_text = Px jsval | Css_empty

record element =
  displayed :: bool
  class_list :: "css_class list"
  style_top :: css_text
  style_left :: css_text
  style_right :: css_text

text \<open>The measured dimensions of the element, read while it is displayed.\<close>

record dims =
  offsetWidth :: jsval
  clientWidth :: jsval
  offsetHeight :: jsval
  clientHeight :: jsval

definition display :: "element \<Rightarrow> element" where
  "display el = el\<lparr>displayed := True\<rparr>"

definition undisplay :: "element \<Rightarrow> element" where
  "undisplay el = el\<lparr>displayed := False\<rparr>"

definition classList_remove :: "css_class \<Rightarrow> element \<Rightarrow> element" where
  "classList_remove c el = el\<lparr>class_list := removeAll c (class_list el)\<rparr>"

definition classList_add :: "css_class \<Rightarrow> element \<Rightarrow> element" where
  "classList_add c el =
     (if c \<in> set (class_list el) then el else el\<lparr>class_list := class_list el @ [c]\<rparr>)"

definition arrow_size :: jsval where
  "arrow_size = Num 10"

fun anchor_to_align :: "anchor \<Rightarrow> valign \<times> halign" where
  "anchor_to_align Top_left = (V_top, H_left)"
| "anchor_to_align Top = (V_top, H_center)"
| "anchor_to_align Top_center = (V_top, H_center)"
| "anchor_to_align Top_right = (V_top, H_right)"
| "anchor_to_align Left = (V_center, H_left)"
| "anchor_to_align Center_left = (V_center, H_left)"
| "anchor_to_align Center = (V_center, H_center)"
| "anchor_to_align Center_center = (V_center, H_center)"
| "anchor_to_align Right = (V_center, H_right)"
| "anchor_to_align Center_right = (V_center, H_right)"
| "anchor_to_align Bottom_left = (V_bottom, H_left)"
| "anchor_to_align Bottom = (V_bottom, H_center)"
| "anchor_to_align Bottom_center = (V_bottom, H_center)"
| "anchor_to_align Bottom_right = (V_bottom, H_right)"

text \<open>Lines 740-760 of \<^verbatim>\<open>_reposition\<close>: the anchor point of a position in the target's box.\<close>

definition anchor_point :: "bbox \<Rightarrow> position \<Rightarrow> jsval \<times> jsval" where
  "anchor_point b pos =
     (case pos of
        At_anchor a \<Rightarrow>
          (let (va, ha) = anchor_to_align a;
               sx = (case ha of H_left \<Rightarrow> bb_left b | H_center \<Rightarrow> hcenter b | H_right \<Rightarrow> bb_right b);
               sy = (case va of V_top \<Rightarrow> bb_top b | V_center \<Rightarrow> vcenter b | V_bottom \<Rightarrow> bb_bottom b)
           in (sx, sy))
      | At_coords x y \<Rightarrow> (x, y))"

text \<open>Lines 762-772 of \<^verbatim>\<open>_reposition\<close>: the side of the anchor point the tooltip goes to.\<close>

definition choose_side :: "tooltip_attachment \<Rightarrow> bbox \<Rightarrow> jsval \<Rightarrow> jsval \<Rightarrow> side" where
  "choose_side att b sx sy =
     (case att of
        Horizontal \<Rightarrow> (if js_lt sx (hcenter b) then Side_right else Side_left)
      | Vertical \<Rightarrow> (if js_lt sy (vcenter b) then Side_below else Side_above)
      | Attach_left \<Rightarrow> Side_left
      | Attach_right \<Rightarrow> Side_right
      | Attach_above \<Rightarrow> Side_above
      | Attach_below \<Rightarrow> Side_below)"

text \<open>
  \<^verbatim>\<open>TooltipView._reposition\<close>, on the model, the box of the target, the measured dimensions
  and the element.
\<close>

definition reposition :: "'n tooltip \<Rightarrow> bbox \<Rightarrow> dims \<Rightarrow> element \<Rightarrow> element" where
  "reposition m b d el =
     (case position m of
        None \<Rightarrow> undisplay el
      | Some pos \<Rightarrow>
          if \<not> visible m then undisplay el
          else
            (let el1 = display el;
                 (sx, sy) = anchor_point b pos;
                 sd = choose_side (attachment m) b sx sy;
                 el2 = classList_remove Cls_below (classList_remove Cls_above
                         (classList_remove Cls_left (classList_remove Cls_right el1)))
             in case sd of
                  Side_right \<Rightarrow>
                    (classList_add Cls_left el2)
                      \<lparr>style_top := Px (js_sub sy (js_div (offsetHeight d) (Num 2))),
                       style_left := Px (js_add (js_add sx (js_sub (offsetWidth d) (clientWidth d))) arrow_size),
                       style_right := Css_empty\<rparr>
                | Side_left \<Rightarrow>
                    (classList_add Cls_right el2)
                      \<lparr>style_top := Px (js_sub sy (js_div (offsetHeight d) (Num 2))),
                       style_left := Css_empty,
                       style_right := Px (js_add (js_sub (offsetWidth d) sx) arrow_size)\<rparr>
                | Side_below \<Rightarrow>
                    (classList_add Cls_above el2)
                      \<lparr>style_top := Px (js_add (js_add sy (js_sub (offsetHeight d) (clientHeight d))) arrow_size),
                       style_left := Px (js_round (js_sub sx (js_div (offsetWidth d) (Num 2)))),
                       style_right := Css_empty\<rparr>
                | Side_above \<Rightarrow>
                    (classList_add Cls_below el2)
                      \<lparr>style_top := Px (js_sub (js_sub sy (offsetHeight d)) arrow_size),
                       style_left := Px (js_round (js_sub sx (js_div (offsetWidth d) (Num 2)))),
                       style_right := Css_empty\<rparr>))"

section \<open>The hover tool\<close>

subsection \<open>Configuration and collaborators\<close>

datatype hover_mode = Mouse | Hline | Vline

datatype muted_policy_kind = Show | Ignore

datatype point_policy_kind = Snap_to_data | Follow_mouse | No_point_policy

datatype line_policy_kind = Prev | Next | Nearest | Interp | No_line_policy

text \<open>
  The \<^verbatim>\<open>tooltips\<close> property: a \<^verbatim>\<open>Template\<close> model, a markup string, a list of label and
  value rows, or a user function; \<^verbatim>\<open>null\<close> is \<open>None\<close>.
\<close>

datatype tooltips_spec =
    TT_template
  | TT_string string
  | TT_rows "(string \<times> string) list"
  | TT_function

record hover_tool =
  active :: bool
  tooltips :: "tooltips_spec option"
  mode :: hover_mode
  muted_policy :: muted_policy_kind
  point_policy :: point_policy_kind
  line_policy :: line_policy_kind
  ht_show_arrow :: bool
  ht_anchor :: anchor
  ht_attachment :: tooltip_attachment
  has_callback :: bool

text \<open>Objects are named by their references; renderers and tooltips are compared by reference.\<close>

type_synonym ref = nat

text \<open>
  A data renderer is a glyph renderer, a graph renderer with its node and edge glyph
  renderers, or of another class.  The first field is the reference of the renderer itself.
\<close>

datatype data_renderer =
    Glyph_renderer ref
  | Graph_renderer ref ref ref
  | Other_renderer ref

fun renderer_ref :: "data_renderer \<Rightarrow> ref" where
  "renderer_ref (Glyph_renderer r) = r"
| "renderer_ref (Graph_renderer r _ _) = r"
| "renderer_ref (Other_renderer r) = r"

text \<open>
  A \<^verbatim>\<open>Selection\<close>: plain indices, line segment indices, the inner segment indices of
  every outer index of a multi-line, the indices of the image cells hit, and the view marker.
\<close>

record selection =
  indices :: "nat list"
  line_indices :: "nat list"
  multiline_indices :: "(nat \<times> nat list) list"
  image_indices :: "nat list"
  sel_view :: "ref option"

text \<open>
  Modelled from the spec: \<^verbatim>\<open>Selection.is_empty\<close> is not part of the sources at hand; a
  selection is empty when all of its index sets are.
\<close>

definition is_empty :: "selection \<Rightarrow> bool" where
  "is_empty s = (indices s = [] \<and> line_indices s = [] \<and> multiline_indices s = []
                 \<and> image_indices s = [])"

record scale =
  invert :: "jsval \<Rightarrow> jsval"
  compute :: "jsval \<Rightarrow> jsval"

datatype glyph_kind =
    Patch_view | VArea_view | HArea_view | Line_view | MultiLine_view | Other_glyph_view

text \<open>
  What the update step reads of a glyph view: its class; the data arrays \<^verbatim>\<open>_x\<close>, \<^verbatim>\<open>_y\<close>
  (not every glyph has them) and the screen arrays \<^verbatim>\<open>sx\<close>, \<^verbatim>\<open>sy\<close>; the ragged arrays of a
  multi-line by their \<^verbatim>\<open>get\<close>; the interpolation of a line and of a multi-line; and
  \<^verbatim>\<open>get_anchor_point\<close>, \<open>None\<close> where the glyph has no such point.
\<close>

record glyph_view =
  g_kind :: glyph_kind
  g_has_xy :: bool
  g_x :: "jsval list"
  g_y :: "jsval list"
  g_sx :: "jsval list"
  g_sy :: "jsval list"
  g_xs :: "nat \<Rightarrow> jsval list"
  g_ys :: "nat \<Rightarrow> jsval list"
  g_sxs :: "nat \<Rightarrow> jsval list"
  g_sys :: "nat \<Rightarrow> jsval list"
  get_interpolation_hit :: "nat \<Rightarrow> geometry \<Rightarrow> jsval \<times> jsval"
  get_interpolation_hit2 :: "nat \<Rightarrow> nat \<Rightarrow> geometry \<Rightarrow> jsval \<times> jsval"
  get_anchor_point :: "anchor \<Rightarrow> nat \<Rightarrow> jsval \<times> jsval \<Rightarrow> (jsval \<times> jsval) option"

record renderer_view =
  x_scale :: scale
  y_scale :: scale
  glyph :: glyph_view

text \<open>
  The glyph renderer an update is about: its reference, its \<^verbatim>\<open>muted\<close> flag and name, the
  selection its selection manager holds for it (\<^verbatim>\<open>inspectors.get(renderer)\<close>), and the two
  conversions of its view between the full set and the subset;
  \<open>convert_index_from_subset i\<close> is \<^verbatim>\<open>convert_indices_from_subset([i])[0]\<close>.
\<close>

record glyph_renderer =
  r_ref :: ref
  muted :: bool
  r_name :: "string option"
  inspected :: selection
  convert_selection_to_subset :: "selection \<Rightarrow> selection"
  convert_index_from_subset :: "nat \<Rightarrow> nat option"

datatype indices_value = Index_list "nat list" | Index_map "(nat \<times> nat list) list"

text \<open>\<^verbatim>\<open>TooltipVars\<close>; an index that is \<^verbatim>\<open>null\<close> is \<open>None\<close>, and so is an optional field left out.\<close>

record vars =
  v_index :: "nat option"
  v_glyph :: glyph_view
  v_x :: jsval
  v_y :: jsval
  v_sx :: jsval
  v_sy :: jsval
  v_tt_x :: jsval
  v_tt_y :: jsval
  v_tt_sx :: jsval
  v_tt_sy :: jsval
  v_name :: "string option"
  v_indices :: "indices_value option"
  v_segment_index :: "nat option"

text \<open>
  The plot around the tool: the renderers it computes, their views, the frame's box, and the
  hit test of every renderer (the selection a geometry yields on its glyph).
\<close>

record plot_env =
  computed_renderers :: "data_renderer list"
  renderer_view_of :: "ref \<Rightarrow> renderer_view option"
  frame_bbox :: bbox
  hit_test :: "ref \<Rightarrow> geometry \<Rightarrow> selection"

text \<open>
  Calls that leave the tool: \<^verbatim>\<open>sm.inspect(rview, geometry)\<close> on the selection manager of a
  renderer, and \<^verbatim>\<open>callback.execute\<close> with the data coordinates, the geometry and the renderer.
\<close>

datatype call =
    Inspect_call ref geometry
  | Callback_call ref jsval jsval geometry

text \<open>
  The state of a \<^verbatim>\<open>HoverToolView\<close> and of what it acts on: the map from glyph renderers to
  tooltips in insertion order, the tooltip objects by reference, the next free reference,
  the calls made, and the inspection result the selection managers hold for every renderer.
\<close>

record 'n hover_view =
  ttmodels :: "(ref \<times> ref) list"
  tt_heap :: "ref \<Rightarrow> 'n tooltip option"
  next_ref :: ref
  calls :: "call list"
  inspectors :: "ref \<Rightarrow> selection"

datatype error = Shouldnt_have_happened | Type_error

subsection \<open>Rebuilding the tooltips\<close>

text \<open>\<^verbatim>\<open>Map.set\<close>: a key that is present keeps its place, a new key goes last.\<close>

fun map_set :: "ref \<Rightarrow> ref \<Rightarrow> (ref \<times> ref) list \<Rightarrow> (ref \<times> ref) list" where
  "map_set k v [] = [(k, v)]"
| "map_set k v (p # ps) = (if fst p = k then (k, v) # ps else p # map_set k v ps)"

definition new_tooltip :: "hover_tool \<Rightarrow> 'n tooltip" where
  "new_tooltip tool =
     \<lparr>position = None, content = [], attachment = ht_attachment tool,
      show_arrow = ht_show_arrow tool,
      custom = (case tooltips tool of
                  Some (TT_string _) \<Rightarrow> True | Some TT_function \<Rightarrow> True | _ \<Rightarrow> False),
      visible = True\<rparr>"

text \<open>Lines 132-145: one new tooltip for every computed renderer.\<close>

fun ttmodels_loop :: "hover_tool \<Rightarrow> data_renderer list \<Rightarrow> 'n hover_view \<Rightarrow> 'n hover_view" where
  "ttmodels_loop tool [] st = st"
| "ttmodels_loop tool (r # rs) st =
     (let t = next_ref st;
          st1 = st\<lparr>tt_heap := (tt_heap st)(t \<mapsto> new_tooltip tool), next_ref := Suc t\<rparr>;
          st2 = (case r of
                   Glyph_renderer g \<Rightarrow> st1\<lparr>ttmodels := map_set g t (ttmodels st1)\<rparr>
                 | Graph_renderer _ n e \<Rightarrow>
                     st1\<lparr>ttmodels := map_set e t (map_set n t (ttmodels st1))\<rparr>
                 | Other_renderer _ \<Rightarrow> st1)
      in ttmodels_loop tool rs st2)"

text \<open>
  \<^verbatim>\<open>_update_ttmodels\<close> up to its first \<^verbatim>\<open>await\<close>: the map is emptied and filled again.  The
  views of the tooltips and the signal connections that follow are outside this model.
\<close>

definition update_ttmodels :: "hover_tool \<Rightarrow> plot_env \<Rightarrow> 'n hover_view \<Rightarrow> 'n hover_view" where
  "update_ttmodels tool env st =
     (let st0 = st\<lparr>ttmodels := []\<rparr>
      in case tooltips tool of
           None \<Rightarrow> st0
         | Some _ \<Rightarrow> ttmodels_loop tool (computed_renderers env) st0)"

subsection \<open>Pointer moves\<close>

definition make_geometry :: "hover_tool \<Rightarrow> jsval \<Rightarrow> jsval \<Rightarrow> geometry" where
  "make_geometry tool sx sy =
     (if mode tool = Mouse then Point_geometry sx sy
      else Span_geometry (if mode tool = Vline then Dir_h else Dir_v) sx sy)"

definition geom_sx :: "geometry \<Rightarrow> jsval" where
  "geom_sx g = (case g of Point_geometry sx _ \<Rightarrow> sx | Span_geometry _ sx _ \<Rightarrow> sx
                | Other_geometry \<Rightarrow> Undefined)"

definition geom_sy :: "geometry \<Rightarrow> jsval" where
  "geom_sy g = (case g of Point_geometry _ sy \<Rightarrow> sy | Span_geometry _ _ sy \<Rightarrow> sy
                | Other_geometry \<Rightarrow> Undefined)"

definition empty_selection :: selection where
  "empty_selection =
     \<lparr>indices = [], line_indices = [], multiline_indices = [], image_indices = [],
      sel_view = None\<rparr>"

definition at_infinity :: "geometry \<Rightarrow> bool" where
  "at_infinity g = (geom_sx g = Pos_Inf \<and> geom_sy g = Pos_Inf)"

text \<open>
  Modelled from the spec: \<^verbatim>\<open>SelectionManager.inspect\<close> is not part of the sources at hand.
  It evaluates the geometry on the renderer's view and keeps the selection found as the
  inspection result of that renderer; the geometry at \<open>(Infinity, Infinity)\<close> is the
  canonical query that hits nothing, so its result is empty.  (The signal that a selection
  manager sends to the update step after an inspection is not modelled.)
\<close>

definition sm_inspect ::
  "plot_env \<Rightarrow> ref \<Rightarrow> geometry \<Rightarrow> (ref \<Rightarrow> selection) \<Rightarrow> (ref \<Rightarrow> selection)" where
  "sm_inspect env r g ins =
     ins(r := (if at_infinity g then empty_selection else hit_test env r g))"

text \<open>The calls of lines 215-220: the renderers that have a view, in order.\<close>

fun inspect_calls :: "plot_env \<Rightarrow> geometry \<Rightarrow> data_renderer list \<Rightarrow> call list" where
  "inspect_calls env g [] = []"
| "inspect_calls env g (r # rs) =
     (case renderer_view_of env (renderer_ref r) of
        None \<Rightarrow> inspect_calls env g rs
      | Some _ \<Rightarrow> Inspect_call (renderer_ref r) g # inspect_calls env g rs)"

text \<open>Lines 215-220: every renderer that has a view is inspected; the others are passed over.\<close>

fun inspect_renderers ::
  "plot_env \<Rightarrow> geometry \<Rightarrow> data_renderer list \<Rightarrow> 'n hover_view \<Rightarrow> 'n hover_view" where
  "inspect_renderers env g [] st = st"
| "inspect_renderers env g (r # rs) st =
     (case renderer_view_of env (renderer_ref r) of
        None \<Rightarrow> inspect_renderers env g rs st
      | Some _ \<Rightarrow>
          inspect_renderers env g rs
            (st\<lparr>calls := calls st @ [Inspect_call (renderer_ref r) g],
                inspectors := sm_inspect env (renderer_ref r) g (inspectors st)\<rparr>))"

text \<open>\<^verbatim>\<open>_emit_callback\<close>: one call for every glyph renderer that has a view.\<close>

fun callback_calls :: "plot_env \<Rightarrow> geometry \<Rightarrow> data_renderer list \<Rightarrow> call list" where
  "callback_calls env g [] = []"
| "callback_calls env g (r # rs) =
     (case r of
        Glyph_renderer gr \<Rightarrow>
          (case renderer_view_of env gr of
             None \<Rightarrow> callback_calls env g rs
           | Some rv \<Rightarrow>
               Callback_call gr (invert (x_scale rv) (geom_sx g)) (invert (y_scale rv) (geom_sy g)) g
                 # callback_calls env g rs)
      | _ \<Rightarrow> callback_calls env g rs)"

definition emit_callback ::
  "hover_tool \<Rightarrow> plot_env \<Rightarrow> geometry \<Rightarrow> 'n hover_view \<Rightarrow> 'n hover_view" where
  "emit_callback tool env g st =
     (if \<not> has_callback tool then st
      else st\<lparr>calls := calls st @ callback_calls env g (computed_renderers env)\<rparr>)"

definition inspect ::
  "hover_tool \<Rightarrow> plot_env \<Rightarrow> jsval \<Rightarrow> jsval \<Rightarrow> 'n hover_view \<Rightarrow> 'n hover_view" where
  "inspect tool env sx sy st =
     (let geometry = make_geometry tool sx sy;
          st1 = inspect_renderers env geometry (computed_renderers env) st
      in emit_callback tool env geometry st1)"

text \<open>\<^verbatim>\<open>tooltip.clear()\<close> on the tooltip object a reference names.\<close>

definition clear_at :: "ref \<Rightarrow> (ref \<Rightarrow> 'n tooltip option) \<Rightarrow> (ref \<Rightarrow> 'n tooltip option)" where
  "clear_at t h = (case h t of None \<Rightarrow> h | Some tt \<Rightarrow> h(t \<mapsto> clear tt))"

fun clear_all :: "(ref \<times> ref) list \<Rightarrow> (ref \<Rightarrow> 'n tooltip option) \<Rightarrow> (ref \<Rightarrow> 'n tooltip option)" where
  "clear_all [] h = h"
| "clear_all (p # ps) h = clear_all ps (clear_at (snd p) h)"

text \<open>\<^verbatim>\<open>HoverToolView._clear\<close>.\<close>

definition hover_clear :: "hover_tool \<Rightarrow> plot_env \<Rightarrow> 'n hover_view \<Rightarrow> 'n hover_view" where
  "hover_clear tool env st =
     (let st1 = inspect tool env Pos_Inf Pos_Inf st
      in st1\<lparr>tt_heap := clear_all (ttmodels st1) (tt_heap st1)\<rparr>)"

text \<open>\<^verbatim>\<open>HoverToolView._move\<close> on the screen position of the event.\<close>

definition move ::
  "hover_tool \<Rightarrow> plot_env \<Rightarrow> jsval \<Rightarrow> jsval \<Rightarrow> 'n hover_view \<Rightarrow> 'n hover_view" where
  "move tool env sx sy st =
     (if \<not> active tool then st
      else if \<not> contains (frame_bbox env) sx sy then hover_clear tool env st
      else inspect tool env sx sy st)"

definition move_exit :: "hover_tool \<Rightarrow> plot_env \<Rightarrow> 'n hover_view \<Rightarrow> 'n hover_view" where
  "move_exit tool env st = hover_clear tool env st"

subsection \<open>The update step\<close>

text \<open>
  A resolved hit: the data coordinates and the screen coordinates of the tooltip, and the
  index it reports.
\<close>

type_synonym resolved = "jsval \<times> jsval \<times> jsval \<times> jsval \<times> nat"

text \<open>Lines 294-324: the hit on segment \<open>i\<close> of a line, by the line policy.\<close>

definition line_resolve ::
  "hover_tool \<Rightarrow> renderer_view \<Rightarrow> geometry \<Rightarrow> nat \<Rightarrow> resolved" where
  "line_resolve tool rv geometry i =
     (let gl = glyph rv; sx = geom_sx geometry; sy = geom_sy geometry;
          tt_x = aget (g_x gl) (i + 1);
          tt_y = aget (g_y gl) (i + 1)
      in case line_policy tool of
           Interp \<Rightarrow>
             (let (tx, ty) = get_interpolation_hit gl i geometry
              in (tx, ty, compute (x_scale rv) tx, compute (y_scale rv) ty, i))
         | Prev \<Rightarrow>
             (let ((tt_sx, tt_sy), ii) = line_hit (g_sx gl) (g_sy gl) i
              in (tt_x, tt_y, tt_sx, tt_sy, ii))
         | Next \<Rightarrow>
             (let ((tt_sx, tt_sy), ii) = line_hit (g_sx gl) (g_sy gl) (i + 1)
              in (tt_x, tt_y, tt_sx, tt_sy, ii))
         | Nearest \<Rightarrow>
             (let ((tt_sx, tt_sy), ii) = nearest_line_hit i geometry sx sy (g_sx gl) (g_sy gl)
              in (aget (g_x gl) ii, aget (g_y gl) ii, tt_sx, tt_sy, ii))
         | No_line_policy \<Rightarrow> (tt_x, tt_y, sx, sy, i))"

text \<open>Lines 353-382: the hit on segment \<open>j\<close> of the line \<open>i\<close> of a multi-line.\<close>

definition multiline_resolve ::
  "hover_tool \<Rightarrow> renderer_view \<Rightarrow> geometry \<Rightarrow> nat \<Rightarrow> nat \<Rightarrow> error + resolved" where
  "multiline_resolve tool rv geometry i j =
     (let gl = glyph rv; sx = geom_sx geometry; sy = geom_sy geometry;
          tt_x = aget (g_xs gl i) j;
          tt_y = aget (g_ys gl i) j
      in case line_policy tool of
           Interp \<Rightarrow>
             (let (tx, ty) = get_interpolation_hit2 gl i j geometry
              in Inr (tx, ty, compute (x_scale rv) tx, compute (y_scale rv) ty, j))
         | Prev \<Rightarrow>
             (let ((tt_sx, tt_sy), jj) = line_hit (g_sxs gl i) (g_sys gl i) j
              in Inr (tt_x, tt_y, tt_sx, tt_sy, jj))
         | Next \<Rightarrow>
             (let ((tt_sx, tt_sy), jj) = line_hit (g_sxs gl i) (g_sys gl i) (j + 1)
              in Inr (tt_x, tt_y, tt_sx, tt_sy, jj))
         | Nearest \<Rightarrow>
             (let ((tt_sx, tt_sy), jj) = nearest_line_hit j geometry sx sy (g_sxs gl i) (g_sys gl i)
              in Inr (aget (g_xs gl i) jj, aget (g_ys gl i) jj, tt_sx, tt_sy, jj))
         | No_line_policy \<Rightarrow> Inl Shouldnt_have_happened)"

text \<open>
  The entries of the list \<^verbatim>\<open>tooltips\<close> of the update step: screen coordinates and the
  rendered node, \<open>None\<close> where the renderer returned \<^verbatim>\<open>null\<close>.  The argument \<open>render\<close> is
  \<^verbatim>\<open>this._render_tooltips(ds, _)\<close>.
\<close>

type_synonym 'n hit = "jsval \<times> jsval \<times> 'n option"

text \<open>The variables every branch shares: the pointer in screen and in data coordinates.\<close>

definition base_vars :: "glyph_renderer \<Rightarrow> renderer_view \<Rightarrow> geometry \<Rightarrow> vars" where
  "base_vars r rv geometry =
     (let sx = geom_sx geometry; sy = geom_sy geometry;
          x = invert (x_scale rv) sx; y = invert (y_scale rv) sy
      in \<lparr>v_index = None, v_glyph = glyph rv, v_x = x, v_y = y, v_sx = sx, v_sy = sy,
          v_tt_x = x, v_tt_y = y, v_tt_sx = sx, v_tt_sy = sy, v_name = r_name r,
          v_indices = None, v_segment_index = None\<rparr>)"

text \<open>Lines 265-275: a patch.\<close>

definition patch_hits ::
  "(vars \<Rightarrow> 'n option) \<Rightarrow> glyph_renderer \<Rightarrow> renderer_view \<Rightarrow> geometry \<Rightarrow> 'n hit list" where
  "patch_hits render r rv geometry =
     (if g_kind (glyph rv) = Patch_view
      then [(geom_sx geometry, geom_sy geometry, render (base_vars r rv geometry))]
      else [])"

text \<open>Lines 277-290: a vertical or horizontal area.\<close>

definition area_hits ::
  "(vars \<Rightarrow> 'n option) \<Rightarrow> glyph_renderer \<Rightarrow> renderer_view \<Rightarrow> geometry \<Rightarrow> selection
     \<Rightarrow> 'n hit list" where
  "area_hits render r rv geometry subset_indices =
     (if g_kind (glyph rv) = VArea_view \<or> g_kind (glyph rv) = HArea_view
      then map (\<lambda>i. (geom_sx geometry, geom_sy geometry,
                     render ((base_vars r rv geometry)
                       \<lparr>v_index := Some i,
                        v_indices := Some (Index_list (line_indices subset_indices))\<rparr>)))
             (line_indices subset_indices)
      else [])"

text \<open>Lines 292-335: a line.\<close>

definition line_hits ::
  "hover_tool \<Rightarrow> (vars \<Rightarrow> 'n option) \<Rightarrow> glyph_renderer \<Rightarrow> renderer_view \<Rightarrow> geometry
     \<Rightarrow> selection \<Rightarrow> 'n hit list" where
  "line_hits tool render r rv geometry subset_indices =
     (if g_kind (glyph rv) = Line_view
      then map (\<lambda>i. let (tt_x, tt_y, tt_sx, tt_sy, ii) = line_resolve tool rv geometry i
                    in (tt_sx, tt_sy,
                        render ((base_vars r rv geometry)
                          \<lparr>v_index := Some ii, v_tt_x := tt_x, v_tt_y := tt_y,
                           v_tt_sx := tt_sx, v_tt_sy := tt_sy,
                           v_indices := Some (Index_list (line_indices subset_indices))\<rparr>)))
             (line_indices subset_indices)
      else [])"

text \<open>Lines 337-347: the image cells, read from the full set.\<close>

definition image_hits ::
  "(vars \<Rightarrow> 'n option) \<Rightarrow> glyph_renderer \<Rightarrow> renderer_view \<Rightarrow> geometry \<Rightarrow> selection
     \<Rightarrow> 'n hit list" where
  "image_hits render r rv geometry fullset_indices =
     map (\<lambda>k. (geom_sx geometry, geom_sy geometry,
                render ((base_vars r rv geometry)\<lparr>v_index := Some k\<rparr>)))
       (image_indices fullset_indices)"

text \<open>Lines 352-395: the segments hit on the line \<open>i\<close> of a multi-line.\<close>

fun multiline_hits ::
  "hover_tool \<Rightarrow> (vars \<Rightarrow> 'n option) \<Rightarrow> glyph_renderer \<Rightarrow> renderer_view \<Rightarrow> geometry
     \<Rightarrow> selection \<Rightarrow> nat \<Rightarrow> nat list \<Rightarrow> error + 'n hit list" where
  "multiline_hits tool render r rv geometry subset_indices i [] = Inr []"
| "multiline_hits tool render r rv geometry subset_indices i (j # js) =
     (case multiline_resolve tool rv geometry i j of
        Inl e \<Rightarrow> Inl e
      | Inr (tt_x, tt_y, tt_sx, tt_sy, jj) \<Rightarrow>
          (let h = (tt_sx, tt_sy,
                    render ((base_vars r rv geometry)
                      \<lparr>v_index := convert_index_from_subset r i, v_tt_x := tt_x, v_tt_y := tt_y,
                       v_tt_sx := tt_sx, v_tt_sy := tt_sy,
                       v_indices := Some (Index_map (multiline_indices subset_indices)),
                       v_segment_index := Some jj\<rparr>))
           in case multiline_hits tool render r rv geometry subset_indices i js of
                Inl e \<Rightarrow> Inl e
              | Inr hs \<Rightarrow> Inr (h # hs)))"

text \<open>Lines 397-428: a hit on index \<open>i\<close> of any other glyph; no hit where no anchor point is found.\<close>

definition point_hits ::
  "hover_tool \<Rightarrow> (vars \<Rightarrow> 'n option) \<Rightarrow> glyph_renderer \<Rightarrow> renderer_view \<Rightarrow> geometry
     \<Rightarrow> selection \<Rightarrow> nat \<Rightarrow> 'n hit list" where
  "point_hits tool render r rv geometry subset_indices i =
     (let gl = glyph rv; sx = geom_sx geometry; sy = geom_sy geometry;
          tt_x = (if g_has_xy gl then aget (g_x gl) i else Undefined);
          tt_y = (if g_has_xy gl then aget (g_y gl) i else Undefined);
          pt = (if point_policy tool = Snap_to_data
                then (case get_anchor_point gl (ht_anchor tool) i (sx, sy) of
                        None \<Rightarrow> get_anchor_point gl Center i (sx, sy)
                      | Some p \<Rightarrow> Some p)
                else Some (sx, sy))
      in case pt of
           None \<Rightarrow> []
         | Some (tt_sx, tt_sy) \<Rightarrow>
             [(tt_sx, tt_sy,
               render ((base_vars r rv geometry)
                 \<lparr>v_index := convert_index_from_subset r i, v_tt_x := tt_x, v_tt_y := tt_y,
                  v_tt_sx := tt_sx, v_tt_sy := tt_sy,
                  v_indices := Some (Index_list (indices subset_indices))\<rparr>))])"

text \<open>
  Lines 349-429: the loop over the plain indices.  Reading \<^verbatim>\<open>multiline_indices\<close> at an
  outer index it has no entry for yields \<^verbatim>\<open>undefined\<close>, and iterating over that throws.
\<close>

fun index_hits ::
  "hover_tool \<Rightarrow> (vars \<Rightarrow> 'n option) \<Rightarrow> glyph_renderer \<Rightarrow> renderer_view \<Rightarrow> geometry
     \<Rightarrow> selection \<Rightarrow> nat list \<Rightarrow> error + 'n hit list" where
  "index_hits tool render r rv geometry subset_indices [] = Inr []"
| "index_hits tool render r rv geometry subset_indices (i # is) =
     (case (if g_kind (glyph rv) = MultiLine_view \<and> multiline_indices subset_indices \<noteq> []
            then (case map_of (multiline_indices subset_indices) i of
                    None \<Rightarrow> Inl Type_error
                  | Some js \<Rightarrow> multiline_hits tool render r rv geometry subset_indices i js)
            else Inr (point_hits tool render r rv geometry subset_indices i)) of
        Inl e \<Rightarrow> Inl e
      | Inr hs \<Rightarrow>
          (case index_hits tool render r rv geometry subset_indices is of
             Inl e \<Rightarrow> Inl e
           | Inr hs' \<Rightarrow> Inr (hs @ hs')))"

text \<open>Lines 263-429: all the hits of one update, in the order the branches push them.\<close>

definition collect_hits ::
  "hover_tool \<Rightarrow> (vars \<Rightarrow> 'n option) \<Rightarrow> glyph_renderer \<Rightarrow> renderer_view \<Rightarrow> geometry
     \<Rightarrow> selection \<Rightarrow> selection \<Rightarrow> error + 'n hit list" where
  "collect_hits tool render r rv geometry fullset_indices subset_indices =
     (case index_hits tool render r rv geometry subset_indices (indices subset_indices) of
        Inl e \<Rightarrow> Inl e
      | Inr hs \<Rightarrow>
          Inr (patch_hits render r rv geometry
               @ area_hits render r rv geometry subset_indices
               @ line_hits tool render r rv geometry subset_indices
               @ image_hits render r rv geometry fullset_indices
               @ hs))"

text \<open>Lines 431-443: the tooltip is cleared, or filled and moved to the last hit.\<close>

definition show_hits :: "'n hit list \<Rightarrow> 'n tooltip \<Rightarrow> 'n tooltip" where
  "show_hits hits tt =
     (if hits = [] then clear tt
      else tt\<lparr>content := List.map_filter (\<lambda>(_, _, node). node) hits,
              position := Some (At_coords (fst (last hits)) (fst (snd (last hits))))\<rparr>)"

definition is_point_or_span :: "geometry \<Rightarrow> bool" where
  "is_point_or_span g = (case g of Other_geometry \<Rightarrow> False | _ \<Rightarrow> True)"

text \<open>
  \<^verbatim>\<open>HoverToolView._update\<close>: the tooltip objects after the step, or the error thrown.  The
  map of the tooltips is only read.
\<close>

definition update ::
  "hover_tool \<Rightarrow> plot_env \<Rightarrow> (vars \<Rightarrow> 'n option) \<Rightarrow> glyph_renderer \<Rightarrow> geometry
     \<Rightarrow> 'n hover_view \<Rightarrow> error + 'n hover_view" where
  "update tool env render r geometry st =
     (if \<not> active tool then Inr st
      else if \<not> is_point_or_span geometry then Inr st
      else if muted_policy tool = Ignore \<and> muted r then Inr st
      else
        (case map_of (ttmodels st) (r_ref r) of
           None \<Rightarrow> Inr st
         | Some t \<Rightarrow>
             (let fullset_indices = inspected r;
                  subset_indices = convert_selection_to_subset r fullset_indices
              in if is_empty fullset_indices \<and> sel_view fullset_indices = None
                 then Inr (st\<lparr>tt_heap := clear_at t (tt_heap st)\<rparr>)
                 else
                   (case renderer_view_of env (r_ref r) of
                      None \<Rightarrow> Inr st
                    | Some rv \<Rightarrow>
                        (case collect_hits tool render r rv geometry fullset_indices subset_indices of
                           Inl e \<Rightarrow> Inl e
                         | Inr hits \<Rightarrow>
                             Inr (st\<lparr>tt_heap :=
                                    (case tt_heap st t of
                                       None \<Rightarrow> tt_heap st
                                     | Some tt \<Rightarrow> (tt_heap st)(t \<mapsto> show_hits hits tt))\<rparr>))))))"

text \<open>Lines 152-161: the glyph renderers of the computed renderers, a graph's node before its edge.\<close>

fun glyph_renderers :: "data_renderer list \<Rightarrow> ref list" where
  "glyph_renderers [] = []"
| "glyph_renderers (Glyph_renderer g # rs) = g # glyph_renderers rs"
| "glyph_renderers (Graph_renderer _ n e # rs) = n # e # glyph_renderers rs"
| "glyph_renderers (Other_renderer _ # rs) = glyph_renderers rs"

section \<open>Rendering the rows of a tooltip\<close>

subsection \<open>The two patterns\<close>

text \<open>
  Strings are lists of 8-bit characters here.  The class \<^verbatim>\<open>\w\<close> is the ASCII letters, the
  digits and the underscore; the dot of a pattern matches every character but the line
  terminators, of which a line feed and a carriage return can occur.
\<close>

definition is_word_char :: "char \<Rightarrow> bool" where
  "is_word_char c =
     (c \<in> set ''abcdefghijklmnopqrstuvwxyzABCDEFGHIJKLMNOPQRSTUVWXYZ0123456789_'')"

definition is_line_terminator :: "char \<Rightarrow> bool" where
  "is_line_terminator c = (c = CHR 0x0A \<or> c = CHR 0x0D)"

text \<open>The rest of a string after the first occurrence of a pattern in it.\<close>

fun find_after :: "string \<Rightarrow> string \<Rightarrow> string option" where
  "find_after pat [] = (if pat = [] then Some [] else None)"
| "find_after pat (c # cs) =
     (if take (length pat) (c # cs) = pat then Some (drop (length pat) (c # cs))
      else find_after pat cs)"

text \<open>\<^verbatim>\<open>s.indexOf(pat) >= 0\<close>.\<close>

definition has_substring :: "string \<Rightarrow> string \<Rightarrow> bool" where
  "has_substring pat s = (find_after pat s \<noteq> None)"

text \<open>\<^verbatim>\<open>s.replace(pat, rep)\<close> for a pattern and a replacement without special sequences.\<close>

fun replace_first :: "string \<Rightarrow> string \<Rightarrow> string \<Rightarrow> string" where
  "replace_first pat rep [] = (if pat = [] then rep else [])"
| "replace_first pat rep (c # cs) =
     (if take (length pat) (c # cs) = pat then rep @ drop (length pat) (c # cs)
      else c # replace_first pat rep cs)"

text \<open>
  \<^verbatim>\<open>value.match(/\$swatch:(\w*)/)\<close>: the column name captured at the first occurrence of
  \<^verbatim>\<open>$swatch:\<close>, \<open>None\<close> when the pattern does not match.
\<close>

definition swatch_match :: "string \<Rightarrow> string option" where
  "swatch_match v = map_option (takeWhile is_word_char) (find_after ''$swatch:'' v)"

text \<open>
  The last position of a closing bracket that is followed by a colon: where the greedy
  \<^verbatim>\<open>.*\<close> of the options group ends once it has backtracked.
\<close>

fun last_close :: "string \<Rightarrow> nat option" where
  "last_close (a # b # cs) =
     (case last_close (b # cs) of
        Some k \<Rightarrow> Some (Suc k)
      | None \<Rightarrow> (if a = CHR '']'' \<and> b = CHR '':'' then Some 0 else None))"
| "last_close _ = None"

text \<open>
  \<^verbatim>\<open>(\[.*\])?:(\w*)\<close> matched right after \<^verbatim>\<open>$color\<close>: the options group (\<^verbatim>\<open>""\<close> when it
  does not take part) and the column name.
\<close>

definition color_match_at :: "string \<Rightarrow> (string \<times> string) option" where
  "color_match_at rest =
     (case (case rest of
              c # body \<Rightarrow>
                (if c = CHR ''[''
                 then (case last_close (takeWhile (\<lambda>d. \<not> is_line_terminator d) body) of
                         Some k \<Rightarrow> Some (c # take (Suc k) body, drop (k + 2) body)
                       | None \<Rightarrow> None)
                 else None)
            | [] \<Rightarrow> None) of
        Some (opts, after) \<Rightarrow> Some (opts, takeWhile is_word_char after)
      | None \<Rightarrow>
          (case rest of
             c # after \<Rightarrow> (if c = CHR '':'' then Some ([], takeWhile is_word_char after) else None)
           | [] \<Rightarrow> None))"

text \<open>\<^verbatim>\<open>value.match(/\$color(\[.*\])?:(\w*)/)\<close>: the leftmost match.\<close>

fun color_match :: "string \<Rightarrow> (string \<times> string) option" where
  "color_match [] = None"
| "color_match (c # cs) =
     (case (if take 6 (c # cs) = ''$color'' then color_match_at (drop 6 (c # cs)) else None) of
        Some m \<Rightarrow> Some m
      | None \<Rightarrow> color_match cs)"

subsection \<open>The template and its rows\<close>

text \<open>
  A color of a column: a packed number, a CSS string, or a tuple of components.  The texts
  \<^verbatim>\<open>color2css\<close> and \<^verbatim>\<open>color2hex\<close> of \<^verbatim>\<open>core/util/color\<close> and the placeholder substitution
  \<^verbatim>\<open>replace_placeholders\<close> of \<^verbatim>\<open>core/util/templating\<close> (with the formatters of the tool) are
  collaborators; a column is read through \<^verbatim>\<open>get_column\<close> of the data source, an entry that is
  \<^verbatim>\<open>null\<close> being \<open>None\<close>.
\<close>

datatype color = Color_uint32 nat | Color_css string | Color_tuple "nat list"

type_synonym data_source = "string \<Rightarrow> color option list option"

datatype piece = Text_piece string | Node_piece string

datatype placeholder_result = PR_string string | PR_nodes "string list"

record collaborators =
  color2css :: "color \<Rightarrow> string"
  color2hex :: "color \<Rightarrow> string"
  replace_placeholders :: "string \<Rightarrow> data_source \<Rightarrow> nat option \<Rightarrow> vars \<Rightarrow> placeholder_result"

text \<open>
  A row of the element \<^verbatim>\<open>_create_template\<close> builds: the text of the label cell, the children
  of the value element, and the background color and the display of the swatch element.
\<close>

record template_row =
  row_label :: string
  value_el :: "piece list"
  swatch_background :: "string option"
  swatch_displayed :: bool

definition create_template :: "(string \<times> string) list \<Rightarrow> template_row list" where
  "create_template tts =
     map (\<lambda>(label, _).
            \<lparr>row_label = (if length label \<noteq> 0 then label @ '': '' else []),
             value_el = [], swatch_background = None, swatch_displayed = False\<rparr>) tts"

text \<open>\<^verbatim>\<open>column[i]\<close>, \<^verbatim>\<open>undefined\<close> out of range being as good as \<^verbatim>\<open>null\<close> to the test that follows.\<close>

definition column_at :: "color option list \<Rightarrow> nat \<Rightarrow> color option" where
  "column_at column i = (if i < length column then column ! i else None)"

text \<open>
  The writes to the \<open>j\<close>-th value and swatch elements.  An element list read past its end
  yields \<^verbatim>\<open>undefined\<close>, and a write to a property of that throws.
\<close>

definition set_text :: "nat \<Rightarrow> string \<Rightarrow> template_row list \<Rightarrow> error + template_row list" where
  "set_text j s rows =
     (if j < length rows then Inr (rows[j := (rows ! j)\<lparr>value_el := [Text_piece s]\<rparr>])
      else Inl Type_error)"

definition append_nodes :: "nat \<Rightarrow> string list \<Rightarrow> template_row list \<Rightarrow> error + template_row list" where
  "append_nodes j ns rows =
     (if ns = [] then Inr rows
      else if j < length rows
      then Inr (rows[j := (rows ! j)\<lparr>value_el := value_el (rows ! j) @ map Node_piece ns\<rparr>])
      else Inl Type_error)"

definition show_swatch :: "nat \<Rightarrow> string \<Rightarrow> template_row list \<Rightarrow> error + template_row list" where
  "show_swatch j css rows =
     (if j < length rows
      then Inr (rows[j := (rows ! j)\<lparr>swatch_background := Some css, swatch_displayed := True\<rparr>])
      else Inl Type_error)"

text \<open>Lines 509-559: the body of the loop of \<^verbatim>\<open>_render_template\<close>, for row \<open>j\<close>.\<close>

definition render_row ::
  "collaborators \<Rightarrow> data_source \<Rightarrow> vars \<Rightarrow> nat \<Rightarrow> string \<Rightarrow> template_row list
     \<Rightarrow> error + template_row list" where
  "render_row c ds vs j v rows =
     (let i = v_index vs in
      if swatch_match v = None \<and> color_match v = None
      then (case replace_placeholders c (replace_first ''$~'' ''$data_'' v) ds i vs of
              PR_string s \<Rightarrow> set_text j s rows
            | PR_nodes ns \<Rightarrow> append_nodes j ns rows)
      else
        (case (case swatch_match v of
                 None \<Rightarrow> Inr rows
               | Some colname \<Rightarrow>
                   (case ds colname of
                      None \<Rightarrow> set_text j (colname @ '' unknown'') rows
                    | Some column \<Rightarrow>
                        (case (case i of None \<Rightarrow> None | Some k \<Rightarrow> column_at column k) of
                           None \<Rightarrow> Inr rows
                         | Some col \<Rightarrow> show_swatch j (color2css c col) rows))) of
           Inl e \<Rightarrow> Inl e
         | Inr rows1 \<Rightarrow>
             (case color_match v of
                None \<Rightarrow> Inr rows1
              | Some (opts, colname) \<Rightarrow>
                  (case ds colname of
                     None \<Rightarrow> set_text j (colname @ '' unknown'') rows1
                   | Some column \<Rightarrow>
                       (case (case i of None \<Rightarrow> None | Some k \<Rightarrow> column_at column k) of
                          None \<Rightarrow> set_text j ''(null)'' rows1
                        | Some col \<Rightarrow>
                            (case set_text j (if has_substring ''hex'' opts then color2hex c col
                                              else color2css c col) rows1 of
                               Inl e \<Rightarrow> Inl e
                             | Inr rows2 \<Rightarrow>
                                 (if has_substring ''swatch'' opts
                                  then show_swatch j (color2css c col) rows2
                                  else Inr rows2)))))))"

fun render_rows ::
  "collaborators \<Rightarrow> data_source \<Rightarrow> vars \<Rightarrow> nat \<Rightarrow> (string \<times> string) list \<Rightarrow> template_row list
     \<Rightarrow> error + template_row list" where
  "render_rows c ds vs j [] rows = Inr rows"
| "render_rows c ds vs j (t # ts) rows =
     (case render_row c ds vs j (snd t) rows of
        Inl e \<Rightarrow> Inl e
      | Inr rows' \<Rightarrow> render_rows c ds vs (Suc j) ts rows')"

text \<open>\<^verbatim>\<open>_render_template\<close>: the clone of the template with its rows filled, or the error thrown.\<close>

definition render_template ::
  "collaborators \<Rightarrow> template_row list \<Rightarrow> (string \<times> string) list \<Rightarrow> data_source \<Rightarrow> vars
     \<Rightarrow> error + template_row list" where
  "render_template c template tts ds vs = render_rows c ds vs 0 tts template"

text \<open>\<^verbatim>\<open>textContent\<close> of a value element.\<close>

fun piece_text :: "piece \<Rightarrow> string" where
  "piece_text (Text_piece s) = s"
| "piece_text (Node_piece s) = s"

definition text_content :: "piece list \<Rightarrow> string" where
  "text_content ps = concat (map piece_text ps)"

text \<open>
  The effect of the loop body on the row it writes to, read off a run on that row alone
  (used to state what the loop does to each row).
\<close>

definition render_cell ::
  "collaborators \<Rightarrow> data_source \<Rightarrow> vars \<Rightarrow> string \<Rightarrow> template_row \<Rightarrow> template_row" where
  "render_cell c ds vs v row =
     (case render_row c ds vs 0 v [row] of Inr rs \<Rightarrow> hd rs | Inl _ \<Rightarrow> row)"

section \<open>Sample inputs\<close>

text \<open>
  A plot with a multi-line glyph renderer (reference 0, with a view) and a graph renderer
  (reference 1, without a view) whose node and edge renderers are 2 and 3; the frame is the
  box \<open>[0,100] \<times> [0,100]\<close>.  The view holds one tooltip, object 7, registered for renderer 0
  and shown at \<open>(3,4)\<close>; every renderer has the sample selection as its inspection result.
\<close>

definition sample_box :: bbox where
  "sample_box = \<lparr>bb_left = Num 0, bb_right = Num 100, bb_top = Num 0, bb_bottom = Num 100\<rparr>"

definition sample_scale :: scale where
  "sample_scale = \<lparr>invert = (\<lambda>v. v), compute = (\<lambda>v. v)\<rparr>"

definition sample_glyph :: glyph_view where
  "sample_glyph =
     \<lparr>g_kind = MultiLine_view, g_has_xy = False, g_x = [], g_y = [], g_sx = [], g_sy = [],
      g_xs = (\<lambda>_. [Num 0, Num 10]), g_ys = (\<lambda>_. [Num 0, Num 0]),
      g_sxs = (\<lambda>_. [Num 0, Num 10]), g_sys = (\<lambda>_. [Num 0, Num 0]),
      get_interpolation_hit = (\<lambda>_ _. (NaN, NaN)),
      get_interpolation_hit2 = (\<lambda>_ _ _. (NaN, NaN)),
      get_anchor_point = (\<lambda>_ _ _. None)\<rparr>"

definition sample_rview :: renderer_view where
  "sample_rview = \<lparr>x_scale = sample_scale, y_scale = sample_scale, glyph = sample_glyph\<rparr>"

text \<open>A selection of one line and, on it, one segment.\<close>

definition sample_selection :: selection where
  "sample_selection =
     \<lparr>indices = [0], line_indices = [], multiline_indices = [(0, [0])],
      image_indices = [], sel_view = None\<rparr>"

definition sample_env :: plot_env where
  "sample_env =
     \<lparr>computed_renderers = [Glyph_renderer 0, Graph_renderer 1 2 3],
      renderer_view_of = (\<lambda>r. if r = 0 then Some sample_rview else None),
      frame_bbox = sample_box,
      hit_test = (\<lambda>_ _. sample_selection)\<rparr>"

definition sample_tool :: hover_tool where
  "sample_tool =
     \<lparr>active = True, tooltips = Some (TT_rows [(''color'', ''$swatch:fill'')]), mode = Mouse,
      muted_policy = Ignore, point_policy = Snap_to_data, line_policy = No_line_policy,
      ht_show_arrow = True, ht_anchor = Center, ht_attachment = Horizontal,
      has_callback = False\<rparr>"

definition sample_tooltip :: "string tooltip" where
  "sample_tooltip =
     \<lparr>position = Some (At_coords (Num 3) (Num 4)), content = [''row''],
      attachment = Horizontal, show_arrow = True, custom = False, visible = True\<rparr>"

definition sample_view :: "string hover_view" where
  "sample_view =
     \<lparr>ttmodels = [(0, 7)], tt_heap = (\<lambda>t. if t = 7 then Some sample_tooltip else None),
      next_ref = 8, calls = [], inspectors = (\<lambda>_. sample_selection)\<rparr>"

text \<open>Renderer 0 with the sample selection.\<close>

definition sample_renderer :: glyph_renderer where
  "sample_renderer =
     \<lparr>r_ref = 0, muted = False, r_name = None,
      inspected = sample_selection,
      convert_selection_to_subset = (\<lambda>s. s),
      convert_index_from_subset = (\<lambda>i. Some i)\<rparr>"

text \<open>
  A data source with the one column \<^verbatim>\<open>fill\<close> holding the number 255 (opaque black),
  collaborators that give every color the texts \<^verbatim>\<open>rgb(0, 0, 0)\<close> and \<^verbatim>\<open>#000000\<close> and leave
  placeholders as they are, and the variables of a hit on index 0.
\<close>

definition sample_source :: data_source where
  "sample_source = (\<lambda>n. if n = ''fill'' then Some [Some (Color_uint32 255)] else None)"

definition sample_collaborators :: collaborators where
  "sample_collaborators =
     \<lparr>color2css = (\<lambda>_. ''rgb(0, 0, 0)''), color2hex = (\<lambda>_. ''#000000''),
      replace_placeholders = (\<lambda>s _ _ _. PR_string s)\<rparr>"

definition sample_vars :: vars where
  "sample_vars =
     (base_vars sample_renderer sample_rview (Point_geometry (Num 1) (Num 2)))\<lparr>v_index := Some 0\<rparr>"

section \<open>Properties of the rounding\<close>

text \<open>
  Rounding to a double is odd and monotone; the lemmas below give what the comparison of two
  rounded magnitudes says about the exact ones, and the doubles of a few decimal numbers.
\<close>

lemma round_even_of_int [simp]: "round_even (of_int n) = n"
  by (simp add: round_even_def)

lemma round_even_minus: "round_even (- t) = - round_even t"
proof (cases "t \<in> \<int>")
  case True
  then obtain n where "t = of_int n" by (auto elim: Ints_cases)
  then show ?thesis
    by (simp add: round_even_def flip: of_int_minus)
next
  case False
  then have "t \<noteq> of_int \<lfloor>t\<rfloor>"
    by (metis Ints_of_int)
  then have f: "\<lfloor>- t\<rfloor> = - \<lfloor>t\<rfloor> - 1"
    by (simp add: floor_minus ceiling_altdef)
  show ?thesis
    unfolding round_even_def Let_def f
    by (auto simp: algebra_simps)
qed

lemma round_even_bounds: "\<lfloor>t\<rfloor> \<le> round_even t" "round_even t \<le> \<lfloor>t\<rfloor> + 1"
  by (simp_all add: round_even_def Let_def)

lemma round_even_mono: "t \<le> s \<Longrightarrow> round_even t \<le> round_even s"
proof -
  assume ts: "t \<le> s"
  then have fl: "\<lfloor>t\<rfloor> \<le> \<lfloor>s\<rfloor>" by (rule floor_mono)
  show ?thesis
  proof (cases "\<lfloor>t\<rfloor> = \<lfloor>s\<rfloor>")
    case True
    then show ?thesis
      using ts by (auto simp: round_even_def Let_def)
  next
    case False
    then have "\<lfloor>t\<rfloor> + 1 \<le> \<lfloor>s\<rfloor>" using fl by simp
    then show ?thesis
      using round_even_bounds(2) [of t] round_even_bounds(1) [of s] by linarith
  qed
qed

lemma round_even_le_int: "t \<le> of_int n \<Longrightarrow> round_even t \<le> n"
  using round_even_mono [of t "of_int n"] by simp

lemma round_even_ge_int: "of_int n \<le> t \<Longrightarrow> n \<le> round_even t"
  using round_even_mono [of "of_int n" t] by simp

lemma binade_minus [simp]: "binade (- x) = binade x"
  by (simp add: binade_def)

lemma ulp_minus [simp]: "ulp (- x) = ulp x"
  by (simp add: ulp_def)

lemma ulp_pos [simp]: "0 < ulp x"
  by (simp add: ulp_def)

lemma ulp_nonneg [simp]: "0 \<le> ulp x"
  by (simp add: ulp_def)

lemma round_even_zero [simp]: "round_even 0 = 0"
  using round_even_of_int [of 0] by simp

lemma round_to_ulp_minus: "round_to_ulp (- x) = - round_to_ulp x"
  by (simp add: round_to_ulp_def round_even_minus)

lemma binade_mono: "0 < a \<Longrightarrow> a \<le> b \<Longrightarrow> binade a \<le> binade b"
  unfolding binade_def
  by (intro max.mono floor_mono) (simp_all)

lemma below_next_binade: "0 < x \<Longrightarrow> x < 2 powr (of_int (binade x) + 1)"
proof -
  assume x: "0 < x"
  have "x < 2 powr (of_int \<lfloor>log 2 x\<rfloor> + 1)"
    using floor_log_eq_powr_iff [of x 2 "\<lfloor>log 2 x\<rfloor>"] x by simp
  also have "\<dots> \<le> 2 powr (of_int (binade x) + 1)"
    using x by (simp add: binade_def)
  finally show ?thesis .
qed

lemma above_binade: "0 < x \<Longrightarrow> - 1022 < binade x \<Longrightarrow> 2 powr (of_int (binade x)) \<le> x"
proof -
  assume x: "0 < x" and b: "- 1022 < binade x"
  then have "binade x = \<lfloor>log 2 x\<rfloor>"
    by (auto simp: binade_def max_def split: if_splits)
  then show ?thesis
    using floor_log_eq_powr_iff [of x 2 "\<lfloor>log 2 x\<rfloor>"] x by simp
qed

lemma round_to_ulp_upper:
  assumes "0 < x"
  shows "round_to_ulp x \<le> 2 powr (of_int (binade x) + 1)"
proof -
  have "x / ulp x \<le> 2 powr (of_int (binade x) + 1) / ulp x"
    using below_next_binade [OF assms] by (intro divide_right_mono) simp_all
  also have "\<dots> = 2 powr 53"
    by (simp add: ulp_def flip: powr_diff)
  also have "\<dots> = of_int (2 ^ 53)"
    by simp
  finally have "round_even (x / ulp x) \<le> 2 ^ 53"
    by (rule round_even_le_int)
  then have "of_int (round_even (x / ulp x)) * ulp x \<le> of_int (2 ^ 53) * ulp x"
    by (intro mult_right_mono) (simp_all add: less_imp_le)
  also have "of_int (2 ^ 53) * ulp x = 2 powr 53 * ulp x"
    by simp
  also have "\<dots> = 2 powr (53 + (of_int (binade x) - 52))"
    unfolding ulp_def by (simp only: powr_add)
  also have "\<dots> = 2 powr (of_int (binade x) + 1)"
    by (simp add: algebra_simps)
  finally show ?thesis
    by (simp add: round_to_ulp_def)
qed

lemma round_to_ulp_lower:
  assumes "0 < x" "- 1022 < binade x"
  shows "2 powr (of_int (binade x)) \<le> round_to_ulp x"
proof -
  have "2 powr (of_int (binade x)) / ulp x \<le> x / ulp x"
    using above_binade [OF assms] by (intro divide_right_mono) simp_all
  moreover have "2 powr (of_int (binade x)) / ulp x = 2 powr 52"
    by (simp add: ulp_def flip: powr_diff)
  moreover have "(2::real) powr 52 = of_int (2 ^ 52)"
    by simp
  ultimately have "of_int (2 ^ 52) \<le> x / ulp x"
    by simp
  then have "2 ^ 52 \<le> round_even (x / ulp x)"
    by (rule round_even_ge_int)
  then have "real_of_int (2 ^ 52) \<le> of_int (round_even (x / ulp x))"
    by (simp only: of_int_le_iff)
  then have le: "of_int (2 ^ 52) * ulp x \<le> of_int (round_even (x / ulp x)) * ulp x"
    by (intro mult_right_mono) simp_all
  have "2 powr (of_int (binade x)) = 2 powr (52 + (of_int (binade x) - 52))"
    by (simp add: algebra_simps)
  also have "\<dots> = 2 powr 52 * ulp x"
    unfolding ulp_def by (simp only: powr_add)
  also have "\<dots> = of_int (2 ^ 52) * ulp x"
    by simp
  also note le
  finally show ?thesis
    by (simp add: round_to_ulp_def)
qed

lemma round_to_ulp_mono_pos:
  assumes "0 < a" "a \<le> b"
  shows "round_to_ulp a \<le> round_to_ulp b"
proof (cases "binade a = binade b")
  case True
  then have u: "ulp a = ulp b" by (simp add: ulp_def)
  have "a / ulp b \<le> b / ulp b"
    using assms by (intro divide_right_mono) simp_all
  then have "round_even (a / ulp b) \<le> round_even (b / ulp b)"
    by (rule round_even_mono)
  then show ?thesis
    by (simp add: round_to_ulp_def u mult_right_mono)
next
  case False
  then have lt: "binade a < binade b"
    using binade_mono [OF assms] by simp
  have b: "0 < b" using assms by simp
  have "- 1022 \<le> binade a" by (simp add: binade_def)
  then have bb: "- 1022 < binade b" using lt by simp
  have "round_to_ulp a \<le> 2 powr (of_int (binade a) + 1)"
    by (rule round_to_ulp_upper [OF assms(1)])
  also have "\<dots> \<le> 2 powr (of_int (binade b))"
    using lt by simp
  also have "\<dots> \<le> round_to_ulp b"
    by (rule round_to_ulp_lower [OF b bb])
  finally show ?thesis .
qed

lemma round_to_ulp_zero [simp]: "round_to_ulp 0 = 0"
  by (simp add: round_to_ulp_def)

lemma round_to_ulp_nonneg: "0 \<le> x \<Longrightarrow> 0 \<le> round_to_ulp x"
proof -
  assume "0 \<le> x"
  then have "of_int 0 \<le> x / ulp x" by (simp add: zero_le_divide_iff)
  then have "0 \<le> round_even (x / ulp x)" by (rule round_even_ge_int)
  then show ?thesis by (simp add: round_to_ulp_def)
qed

lemma round_to_ulp_abs: "\<bar>round_to_ulp x\<bar> = round_to_ulp \<bar>x\<bar>"
proof (cases "0 \<le> x")
  case True
  then show ?thesis by (simp add: round_to_ulp_nonneg)
next
  case False
  then have "0 \<le> round_to_ulp (- x)" by (intro round_to_ulp_nonneg) simp
  then show ?thesis
    using False by (simp add: round_to_ulp_minus abs_if)
qed

lemma round_to_ulp_abs_mono:
  assumes "\<bar>a\<bar> \<le> \<bar>b\<bar>"
  shows "\<bar>round_to_ulp a\<bar> \<le> \<bar>round_to_ulp b\<bar>"
proof (cases "a = 0")
  case True
  then show ?thesis by simp
next
  case False
  then have "0 < \<bar>a\<bar>" by simp
  then show ?thesis
    using round_to_ulp_mono_pos [of "\<bar>a\<bar>" "\<bar>b\<bar>"] assms by (simp add: round_to_ulp_abs)
qed


lemma to_double_minus: "to_double (- x) = js_neg (to_double x)"
  by (auto simp: to_double_def Let_def round_to_ulp_minus max_double_def)

lemma js_abs_to_double:
  "js_abs (to_double x) =
     (if max_double < \<bar>round_to_ulp x\<bar> then Pos_Inf else Num \<bar>round_to_ulp x\<bar>)"
  by (auto simp: to_double_def Let_def max_double_def)

lemma js_lt_abs_to_double:
  "js_lt (js_abs (to_double a)) (js_abs (to_double b))
     \<longleftrightarrow> \<bar>round_to_ulp a\<bar> < \<bar>round_to_ulp b\<bar> \<and> \<bar>round_to_ulp a\<bar> \<le> max_double"
  by (auto simp: js_abs_to_double)

lemma js_lt_abs_to_double_closer:
  assumes "js_lt (js_abs (to_double a)) (js_abs (to_double b))"
  shows "\<bar>a\<bar> < \<bar>b\<bar>"
proof (rule ccontr)
  assume "\<not> \<bar>a\<bar> < \<bar>b\<bar>"
  then have "\<bar>round_to_ulp b\<bar> \<le> \<bar>round_to_ulp a\<bar>"
    by (intro round_to_ulp_abs_mono) simp
  then show False
    using assms by (simp add: js_lt_abs_to_double)
qed

lemma js_abs_to_double_sym:
  "\<bar>a\<bar> = \<bar>b\<bar> \<Longrightarrow> js_abs (to_double a) = js_abs (to_double b)"
  by (simp add: js_abs_to_double round_to_ulp_abs)

lemma js_lt_irrefl [simp]: "\<not> js_lt a a"
  by (cases a) simp_all

lemma binade_eqI:
  assumes "2 powr (of_int e) \<le> \<bar>x\<bar>" "\<bar>x\<bar> < 2 powr (of_int e + 1)" "- 1022 \<le> e"
  shows "binade x = e"
proof -
  have "0 < \<bar>x\<bar>"
    using assms(1) by (smt (verit) powr_gt_zero)
  then have "\<lfloor>log 2 \<bar>x\<bar>\<rfloor> = e"
    using floor_log_eq_powr_iff [of "\<bar>x\<bar>" 2 e] assms by simp
  then show ?thesis
    using assms(3) by (simp add: binade_def)
qed

lemma round_to_ulp_at:
  assumes "2 powr (of_int e) \<le> \<bar>x\<bar>" "\<bar>x\<bar> < 2 powr (of_int e + 1)" "- 1022 \<le> e"
  shows "round_to_ulp x = of_int (round_even (x / 2 powr (of_int e - 52))) * 2 powr (of_int e - 52)"
  by (simp add: round_to_ulp_def ulp_def binade_eqI [OF assms])

lemma round_to_ulp_scaled:
  assumes "2 ^ 52 \<le> \<bar>x\<bar> * 2 ^ k" "\<bar>x\<bar> * 2 ^ k < 2 ^ 53" "k \<le> 1074"
  shows "round_to_ulp x = of_int (round_even (x * 2 ^ k)) / 2 ^ k"
proof -
  have p: "(2::real) powr (of_int (52 - int k)) = 2 ^ 52 / 2 ^ k"
    by (simp add: powr_diff powr_realpow)
  have "(2::real) powr (of_int (52 - int k) + 1) = 2 powr (53 - real k)"
    by (simp add: algebra_simps)
  also have "\<dots> = 2 ^ 53 / 2 ^ k"
    by (simp add: powr_diff powr_realpow)
  finally have q: "(2::real) powr (of_int (52 - int k) + 1) = 2 ^ 53 / 2 ^ k" .
  have u: "(2::real) powr (of_int (52 - int k) - 52) = 1 / 2 ^ k"
    by (simp add: powr_minus powr_realpow divide_simps)
  have "2 ^ 52 / 2 ^ k \<le> \<bar>x\<bar>"
    using assms(1) by (simp only: pos_divide_le_eq zero_less_power zero_less_numeral)
  then have lo: "2 powr (of_int (52 - int k)) \<le> \<bar>x\<bar>"
    by (simp only: p)
  have "\<bar>x\<bar> < 2 ^ 53 / 2 ^ k"
    using assms(2) by (simp only: pos_less_divide_eq zero_less_power zero_less_numeral)
  then have hi: "\<bar>x\<bar> < 2 powr (of_int (52 - int k) + 1)"
    by (simp only: q)
  have "- 1022 \<le> 52 - int k"
    using assms(3) by simp
  from round_to_ulp_at [OF lo hi this] show ?thesis
    by (simp only: u) simp
qed

lemma round_diff_lower:
  "round_to_ulp (- (52917295621603325 / 2251799813685248)) = - (47 / 2)"
  by (subst round_to_ulp_scaled [where k = 48]) (simp_all add: round_even_def Let_def)

lemma round_diff_upper:
  "round_to_ulp (47 / 2) = 47 / 2"
  by (subst round_to_ulp_scaled [where k = 48]) (simp_all add: round_even_def Let_def)

lemma round_2_9:
  "round_to_ulp (29 / 10) = 6530219459687219 / 2251799813685248"
  by (subst round_to_ulp_scaled [where k = 51]) (simp_all add: round_even_def Let_def)

lemma round_49_9:
  "round_to_ulp (499 / 10) = 7022800668930867 / 140737488355328"
  by (subst round_to_ulp_scaled [where k = 47]) (simp_all add: round_even_def Let_def)

lemma round_26_4:
  "round_to_ulp (132 / 5) = 3715469692580659 / 140737488355328"
  by (subst round_to_ulp_scaled [where k = 48]) (simp_all add: round_even_def Let_def)

lemma round_minus_3:
  "round_to_ulp (- 3) = - 3"
  by (subst round_to_ulp_scaled [where k = 51]) (simp_all add: round_even_def Let_def)

lemma round_7:
  "round_to_ulp 7 = 7"
  by (subst round_to_ulp_scaled [where k = 50]) (simp_all add: round_even_def Let_def)

section \<open>Properties of the line hits\<close>

lemma dist_2_pts_fin:
  "dist_2_pts (Num a, Num b) (Num c, Num d) = Num (euclid (a, b) (c, d))"
  by (simp add: dist_2_pts_def finite_point_def)

lemma js_sub_fin: "js_sub (Num a) (Num b) = to_double (a - b)"
  by (simp add: js_sub_def)

text \<open>
  Claim C1, as the code has it.  For every segment index, pointer position and coordinate
  arrays, the \<^verbatim>\<open>nearest\<close> resolution compares the distance from the pointer to sample \<open>i\<close>
  and to sample \<open>i+1\<close> as it computes them (by \<^verbatim>\<open>dist_2_pts\<close> for a point geometry; the
  magnitude of the difference of the one relevant coordinate for a span) and returns the
  coordinates and the index of sample \<open>i\<close> when its computed distance is strictly smaller,
  those of sample \<open>i+1\<close> otherwise.  For a segment whose two samples exist and are finite,
  and a finite pointer: in point mode the distance compared is the Euclidean distance; in
  span mode each difference is rounded to a double before the magnitudes are compared, and
  whenever the two rounded magnitudes differ, the sample with the smaller one is strictly
  closer on that axis.
\<close>

theorem nearest_line_hit_closer:
  "nearest_line_hit i (Point_geometry gx gy) sx sy dx dy =
     (if js_lt (dist_2_pts (aget dx i, aget dy i) (sx, sy))
               (dist_2_pts (aget dx (i + 1), aget dy (i + 1)) (sx, sy))
      then ((aget dx i, aget dy i), i) else ((aget dx (i + 1), aget dy (i + 1)), i + 1))
   \<and> nearest_line_hit i (Span_geometry Dir_h gx gy) sx sy dx dy =
     (if js_lt (js_abs (js_sub (aget dx i) sx)) (js_abs (js_sub (aget dx (i + 1)) sx))
      then ((aget dx i, aget dy i), i) else ((aget dx (i + 1), aget dy (i + 1)), i + 1))
   \<and> nearest_line_hit i (Span_geometry Dir_v gx gy) sx sy dx dy =
     (if js_lt (js_abs (js_sub (aget dy i) sy)) (js_abs (js_sub (aget dy (i + 1)) sy))
      then ((aget dx i, aget dy i), i) else ((aget dx (i + 1), aget dy (i + 1)), i + 1))
   \<and> (Suc i < length dx \<and> Suc i < length dy
        \<and> dx ! i = Num x1 \<and> dy ! i = Num y1 \<and> dx ! Suc i = Num x2 \<and> dy ! Suc i = Num y2
      \<longrightarrow>
        nearest_line_hit i (Point_geometry gx gy) (Num px) (Num py) dx dy =
          (if euclid (x1, y1) (px, py) < euclid (x2, y2) (px, py)
           then ((Num x1, Num y1), i) else ((Num x2, Num y2), Suc i))
      \<and> nearest_line_hit i (Span_geometry Dir_h gx gy) (Num px) (Num py) dx dy =
          (if js_lt (js_abs (to_double (x1 - px))) (js_abs (to_double (x2 - px)))
           then ((Num x1, Num y1), i) else ((Num x2, Num y2), Suc i))
      \<and> nearest_line_hit i (Span_geometry Dir_v gx gy) (Num px) (Num py) dx dy =
          (if js_lt (js_abs (to_double (y1 - py))) (js_abs (to_double (y2 - py)))
           then ((Num x1, Num y1), i) else ((Num x2, Num y2), Suc i))
      \<and> (js_lt (js_abs (to_double (x1 - px))) (js_abs (to_double (x2 - px)))
            \<longrightarrow> \<bar>x1 - px\<bar> < \<bar>x2 - px\<bar>)
      \<and> (js_lt (js_abs (to_double (x2 - px))) (js_abs (to_double (x1 - px)))
            \<longrightarrow> \<bar>x2 - px\<bar> < \<bar>x1 - px\<bar>)
      \<and> (js_lt (js_abs (to_double (y1 - py))) (js_abs (to_double (y2 - py)))
            \<longrightarrow> \<bar>y1 - py\<bar> < \<bar>y2 - py\<bar>)
      \<and> (js_lt (js_abs (to_double (y2 - py))) (js_abs (to_double (y1 - py)))
            \<longrightarrow> \<bar>y2 - py\<bar> < \<bar>y1 - py\<bar>))"
proof -
  have one: "nearest_line_hit i (Point_geometry gx gy) sx sy dx dy =
     (if js_lt (dist_2_pts (aget dx i, aget dy i) (sx, sy))
               (dist_2_pts (aget dx (i + 1), aget dy (i + 1)) (sx, sy))
      then ((aget dx i, aget dy i), i) else ((aget dx (i + 1), aget dy (i + 1)), i + 1))
   \<and> nearest_line_hit i (Span_geometry Dir_h gx gy) sx sy dx dy =
     (if js_lt (js_abs (js_sub (aget dx i) sx)) (js_abs (js_sub (aget dx (i + 1)) sx))
      then ((aget dx i, aget dy i), i) else ((aget dx (i + 1), aget dy (i + 1)), i + 1))
   \<and> nearest_line_hit i (Span_geometry Dir_v gx gy) sx sy dx dy =
     (if js_lt (js_abs (js_sub (aget dy i) sy)) (js_abs (js_sub (aget dy (i + 1)) sy))
      then ((aget dx i, aget dy i), i) else ((aget dx (i + 1), aget dy (i + 1)), i + 1))"
    by (simp add: nearest_line_hit_def Let_def)
  have two: "nearest_line_hit i (Point_geometry gx gy) (Num px) (Num py) dx dy =
          (if euclid (x1, y1) (px, py) < euclid (x2, y2) (px, py)
           then ((Num x1, Num y1), i) else ((Num x2, Num y2), Suc i))
      \<and> nearest_line_hit i (Span_geometry Dir_h gx gy) (Num px) (Num py) dx dy =
          (if js_lt (js_abs (to_double (x1 - px))) (js_abs (to_double (x2 - px)))
           then ((Num x1, Num y1), i) else ((Num x2, Num y2), Suc i))
      \<and> nearest_line_hit i (Span_geometry Dir_v gx gy) (Num px) (Num py) dx dy =
          (if js_lt (js_abs (to_double (y1 - py))) (js_abs (to_double (y2 - py)))
           then ((Num x1, Num y1), i) else ((Num x2, Num y2), Suc i))"
    if "Suc i < length dx" "Suc i < length dy" "dx ! i = Num x1" "dy ! i = Num y1"
      "dx ! Suc i = Num x2" "dy ! Suc i = Num y2"
    using that by (simp add: nearest_line_hit_def aget_def dist_2_pts_fin js_sub_fin)
  show ?thesis
    using one two js_lt_abs_to_double_closer by blast
qed

text \<open>
  The segment from \<open>(0,0)\<close> to \<open>(10,0)\<close>: a point-mode pointer at \<open>(3,0)\<close> resolves to
  \<open>(0,0)\<close> and the lower index, one at \<open>(8,0)\<close> to \<open>(10,0)\<close> and the upper index; a span of
  direction \<^verbatim>\<open>h\<close> at x = 3 resolves to the lower sample, the rounded magnitudes being 3 and 7.
\<close>

theorem nearest_line_hit_closer_witness:
  "nearest_line_hit 0 (Point_geometry (Num 3) (Num 0)) (Num 3) (Num 0)
       [Num 0, Num 10] [Num 0, Num 0] = ((Num 0, Num 0), 0)
   \<and> nearest_line_hit 0 (Point_geometry (Num 8) (Num 0)) (Num 8) (Num 0)
       [Num 0, Num 10] [Num 0, Num 0] = ((Num 10, Num 0), Suc 0)
   \<and> nearest_line_hit 0 (Span_geometry Dir_h (Num 3) (Num 0)) (Num 3) (Num 0)
       [Num 0, Num 10] [Num 0, Num 0] = ((Num 0, Num 0), 0)
   \<and> js_lt (js_abs (to_double (0 - 3))) (js_abs (to_double (10 - 3)))
   \<and> \<bar>0 - 3\<bar> < \<bar>10 - (3::real)\<bar>"
proof -
  have r: "js_lt (js_abs (to_double (0 - 3))) (js_abs (to_double (10 - 3)))"
    by (simp add: to_double_def round_minus_3 round_7 max_double_def)
  show ?thesis
    using r
      nearest_line_hit_closer [of 0 "Num 3" "Num 0" "Num 3" "Num 0"
        "[Num 0, Num 10]" "[Num 0, Num 0]" 0 0 10 0 3 0,
        THEN conjunct2, THEN conjunct2, THEN conjunct2]
      nearest_line_hit_closer [of 0 "Num 8" "Num 0" "Num 8" "Num 0"
        "[Num 0, Num 10]" "[Num 0, Num 0]" 0 0 10 0 8 0,
        THEN conjunct2, THEN conjunct2, THEN conjunct2]
    by (simp add: euclid_def)
qed

text \<open>
  Against claim C1 as stated: the samples at the doubles 2.9 and 49.9 and a span of
  direction \<^verbatim>\<open>h\<close> at the double 26.4.  Sample \<open>i\<close> is strictly closer to the pointer, yet both
  differences round to magnitude 23.5 and the resolution returns sample \<open>i+1\<close>.
\<close>

theorem nearest_span_rounding_counterexample:
  "to_double (29 / 10) = Num (6530219459687219 / 2251799813685248)
   \<and> to_double (499 / 10) = Num (7022800668930867 / 140737488355328)
   \<and> to_double (264 / 10) = Num (3715469692580659 / 140737488355328)
   \<and> \<bar>6530219459687219 / 2251799813685248 - 3715469692580659 / 140737488355328\<bar>
       < \<bar>7022800668930867 / 140737488355328 - 3715469692580659 / (140737488355328::real)\<bar>
   \<and> nearest_line_hit 0 (Span_geometry Dir_h (Num (3715469692580659 / 140737488355328)) (Num 0))
         (Num (3715469692580659 / 140737488355328)) (Num 0)
         [Num (6530219459687219 / 2251799813685248), Num (7022800668930867 / 140737488355328)]
         [Num 0, Num 0]
       = ((Num (7022800668930867 / 140737488355328), Num 0), Suc 0)"
  by (simp add: nearest_line_hit_def aget_def js_sub_fin to_double_def max_double_def
      round_diff_lower round_diff_upper round_2_9 round_49_9 round_26_4)

text \<open>
  Claim C10.  When the pointer is as far from sample \<open>i\<close> as from sample \<open>i+1\<close> (in the
  distance the geometry compares), the \<^verbatim>\<open>nearest\<close> resolution returns the coordinates and
  the index of the upper sample \<open>i+1\<close>: the comparison is strict.
\<close>

theorem nearest_line_hit_tie:
  assumes "Suc i < length dx" and "Suc i < length dy"
    and "dx ! i = Num x1" and "dy ! i = Num y1"
    and "dx ! Suc i = Num x2" and "dy ! Suc i = Num y2"
  shows "(euclid (x1, y1) (px, py) = euclid (x2, y2) (px, py) \<longrightarrow>
           nearest_line_hit i (Point_geometry gx gy) (Num px) (Num py) dx dy
             = ((Num x2, Num y2), Suc i))
       \<and> (\<bar>x1 - px\<bar> = \<bar>x2 - px\<bar> \<longrightarrow>
           nearest_line_hit i (Span_geometry Dir_h gx gy) (Num px) (Num py) dx dy
             = ((Num x2, Num y2), Suc i))
       \<and> (\<bar>y1 - py\<bar> = \<bar>y2 - py\<bar> \<longrightarrow>
           nearest_line_hit i (Span_geometry Dir_v gx gy) (Num px) (Num py) dx dy
             = ((Num x2, Num y2), Suc i))"
  using assms
  by (auto simp: nearest_line_hit_def aget_def dist_2_pts_fin js_sub_fin
      dest: js_abs_to_double_sym)

text \<open>
  A pointer on the perpendicular bisector of a segment, and a segment whose two samples
  coincide.
\<close>

theorem nearest_line_hit_tie_witness:
  "nearest_line_hit 0 (Point_geometry (Num 5) (Num 0)) (Num 5) (Num 0)
       [Num 0, Num 10] [Num 0, Num 0] = ((Num 10, Num 0), Suc 0)
   \<and> nearest_line_hit 0 (Span_geometry Dir_h (Num 5) (Num 7)) (Num 5) (Num 7)
       [Num 0, Num 10] [Num 0, Num 0] = ((Num 10, Num 0), Suc 0)
   \<and> nearest_line_hit 0 (Span_geometry Dir_v (Num 5) (Num 7)) (Num 5) (Num 7)
       [Num 4, Num 4] [Num 2, Num 2] = ((Num 4, Num 2), Suc 0)"
  using nearest_line_hit_tie [of 0 "[Num 0, Num 10]" "[Num 0, Num 0]" 0 0 10 0 5 0 "Num 5" "Num 0"]
    nearest_line_hit_tie [of 0 "[Num 0, Num 10]" "[Num 0, Num 0]" 0 0 10 0 5 7 "Num 5" "Num 7"]
    nearest_line_hit_tie [of 0 "[Num 4, Num 4]" "[Num 2, Num 2]" 4 2 4 2 5 7 "Num 5" "Num 7"]
  by (simp add: euclid_def)

section \<open>Properties of the tooltip placement\<close>

lemma side_classes_after_add:
  assumes "c \<in> {Cls_right, Cls_left, Cls_above, Cls_below}"
  shows "set (class_list (classList_add c
            (classList_remove Cls_below (classList_remove Cls_above
              (classList_remove Cls_left (classList_remove Cls_right el))))))
          \<inter> {Cls_right, Cls_left, Cls_above, Cls_below} = {c}"
  using assms by (auto simp: classList_add_def classList_remove_def)

text \<open>
  Claim C3.  The side chosen by the reposition routine: under the attachment
  \<^verbatim>\<open>horizontal\<close> it is \<^verbatim>\<open>right\<close> when the anchor's x lies strictly before the box's horizontal
  center and \<^verbatim>\<open>left\<close> otherwise; under \<^verbatim>\<open>vertical\<close> it is \<^verbatim>\<open>below\<close> when the anchor's y lies
  strictly before the vertical center and \<^verbatim>\<open>above\<close> otherwise; a fixed side is taken as it
  is.  For the box \<open>[0,100] \<times> [0,100]\<close>: x = 20 gives \<^verbatim>\<open>right\<close>, x = 80 gives \<^verbatim>\<open>left\<close>, and
  y = 90 under \<^verbatim>\<open>vertical\<close> gives \<^verbatim>\<open>above\<close>.  The element of a shown tooltip carries exactly
  the one side class of the chosen side.
\<close>

theorem reposition_side:
  "choose_side Horizontal b sx sy = (if js_lt sx (hcenter b) then Side_right else Side_left)
   \<and> choose_side Vertical b sx sy = (if js_lt sy (vcenter b) then Side_below else Side_above)
   \<and> choose_side Attach_left b sx sy = Side_left
   \<and> choose_side Attach_right b sx sy = Side_right
   \<and> choose_side Attach_above b sx sy = Side_above
   \<and> choose_side Attach_below b sx sy = Side_below
   \<and> choose_side Horizontal \<lparr>bb_left = Num l, bb_right = Num r, bb_top = Num t, bb_bottom = Num bt\<rparr> (Num x) (Num y)
        = (if x < (l + r) / 2 then Side_right else Side_left)
   \<and> choose_side Vertical \<lparr>bb_left = Num l, bb_right = Num r, bb_top = Num t, bb_bottom = Num bt\<rparr> (Num x) (Num y)
        = (if y < (t + bt) / 2 then Side_below else Side_above)
   \<and> choose_side Horizontal \<lparr>bb_left = Num 0, bb_right = Num 100, bb_top = Num 0, bb_bottom = Num 100\<rparr> (Num 20) sy
        = Side_right
   \<and> choose_side Horizontal \<lparr>bb_left = Num 0, bb_right = Num 100, bb_top = Num 0, bb_bottom = Num 100\<rparr> (Num 80) sy
        = Side_left
   \<and> choose_side Vertical \<lparr>bb_left = Num 0, bb_right = Num 100, bb_top = Num 0, bb_bottom = Num 100\<rparr> sx (Num 90)
        = Side_above
   \<and> set (class_list (reposition (m\<lparr>position := Some (At_coords sx sy), visible := True\<rparr>) b d el))
         \<inter> {Cls_right, Cls_left, Cls_above, Cls_below}
        = {case choose_side (attachment m) b sx sy of
             Side_right \<Rightarrow> Cls_left | Side_left \<Rightarrow> Cls_right
           | Side_below \<Rightarrow> Cls_above | Side_above \<Rightarrow> Cls_below}"
proof -
  have cls: "set (class_list (reposition (m\<lparr>position := Some (At_coords sx sy), visible := True\<rparr>) b d el))
         \<inter> {Cls_right, Cls_left, Cls_above, Cls_below}
        = {case choose_side (attachment m) b sx sy of
             Side_right \<Rightarrow> Cls_left | Side_left \<Rightarrow> Cls_right
           | Side_below \<Rightarrow> Cls_above | Side_above \<Rightarrow> Cls_below}"
    by (cases "choose_side (attachment m) b sx sy")
       (simp_all add: reposition_def anchor_point_def side_classes_after_add)
  show ?thesis
    by (simp add: choose_side_def hcenter_def vcenter_def midpoint_of_def cls)
qed

text \<open>
  Claim C9.  Repositioning is idempotent: with the model, the target's box and the measured
  dimensions unchanged, a second run leaves the element (display, class list, top, left and
  right styles) as the first run left it.
\<close>

theorem reposition_idempotent:
  "reposition m b d (reposition m b d el) = reposition m b d el"
proof (cases "position m")
  case None
  then show ?thesis by (simp add: reposition_def undisplay_def)
next
  case (Some pos)
  show ?thesis
  proof (cases "visible m")
    case False
    with Some show ?thesis by (simp add: reposition_def undisplay_def)
  next
    case True
    obtain sx sy where p: "anchor_point b pos = (sx, sy)" by (cases "anchor_point b pos")
    show ?thesis
      using Some True p
      by (cases "choose_side (attachment m) b sx sy")
         (auto simp: reposition_def display_def classList_add_def classList_remove_def)
  qed
qed

section \<open>Properties of the hover tool\<close>

subsection \<open>The policies \<^verbatim>\<open>prev\<close> and \<^verbatim>\<open>next\<close>\<close>

text \<open>
  Claim C2.  Under the line policies \<^verbatim>\<open>prev\<close> and \<^verbatim>\<open>next\<close> the hit on segment \<open>i\<close> does not
  depend on the pointer: \<^verbatim>\<open>_line_hit\<close> returns the coordinates and the index of the sample it is
  given; \<^verbatim>\<open>prev\<close> resolves to the screen coordinates and the index of sample \<open>i\<close>, \<^verbatim>\<open>next\<close> to
  those of sample \<open>i+1\<close>, for a line and for a line of a multi-line; and two geometries
  \<open>g\<close>, \<open>g'\<close> (two pointer positions) give the same resolved hit.
\<close>

theorem prev_next_ignore_pointer:
  "line_hit xs ys ind = ((aget xs ind, aget ys ind), ind)
   \<and> line_resolve (tool\<lparr>line_policy := Prev\<rparr>) rv g i =
       (aget (g_x (glyph rv)) (i + 1), aget (g_y (glyph rv)) (i + 1),
        aget (g_sx (glyph rv)) i, aget (g_sy (glyph rv)) i, i)
   \<and> line_resolve (tool\<lparr>line_policy := Next\<rparr>) rv g i =
       (aget (g_x (glyph rv)) (i + 1), aget (g_y (glyph rv)) (i + 1),
        aget (g_sx (glyph rv)) (i + 1), aget (g_sy (glyph rv)) (i + 1), i + 1)
   \<and> line_resolve (tool\<lparr>line_policy := Prev\<rparr>) rv g i
       = line_resolve (tool\<lparr>line_policy := Prev\<rparr>) rv g' i
   \<and> line_resolve (tool\<lparr>line_policy := Next\<rparr>) rv g i
       = line_resolve (tool\<lparr>line_policy := Next\<rparr>) rv g' i
   \<and> multiline_resolve (tool\<lparr>line_policy := Prev\<rparr>) rv g k i =
       Inr (aget (g_xs (glyph rv) k) i, aget (g_ys (glyph rv) k) i,
            aget (g_sxs (glyph rv) k) i, aget (g_sys (glyph rv) k) i, i)
   \<and> multiline_resolve (tool\<lparr>line_policy := Next\<rparr>) rv g k i =
       Inr (aget (g_xs (glyph rv) k) i, aget (g_ys (glyph rv) k) i,
            aget (g_sxs (glyph rv) k) (i + 1), aget (g_sys (glyph rv) k) (i + 1), i + 1)"
  by (simp add: line_resolve_def multiline_resolve_def line_hit_def Let_def)

subsection \<open>Muted renderers\<close>

text \<open>
  Claim C8.  When the muted policy is \<^verbatim>\<open>ignore\<close> and the renderer is muted, the update step
  returns without an error and leaves the state of the view as it was: the map, every
  tooltip's position and content, and the calls made.
\<close>

theorem muted_ignored_no_mutation:
  assumes "muted_policy tool = Ignore" and "muted r"
  shows "update tool env render r geometry st = Inr st"
  using assms by (simp add: update_def)

text \<open>
  A muted renderer with a hit that would otherwise raise: nothing happens, and the tooltip
  stays where it was shown.
\<close>

theorem muted_ignored_no_mutation_witness:
  "update sample_tool sample_env (\<lambda>_. Some ''row'') (sample_renderer\<lparr>muted := True\<rparr>)
       (Point_geometry (Num 1) (Num 2)) sample_view = Inr sample_view
   \<and> map_option position (tt_heap sample_view 7) = Some (Some (At_coords (Num 3) (Num 4)))"
  using muted_ignored_no_mutation [of sample_tool "sample_renderer\<lparr>muted := True\<rparr>" sample_env
      "\<lambda>_. Some ''row''" "Point_geometry (Num 1) (Num 2)" sample_view]
  by (simp add: sample_tool_def sample_renderer_def sample_view_def sample_tooltip_def)

subsection \<open>Rebuilding the tooltips\<close>

lemma map_of_map_set: "map_of (map_set k v m) = (map_of m)(k \<mapsto> v)"
  by (induction m) (auto simp: fun_eq_iff)

lemma loop_next_ref: "next_ref (ttmodels_loop tool rs st) = next_ref st + length rs"
  by (induction rs arbitrary: st) (auto simp: Let_def split: data_renderer.splits)

lemma loop_heap_old:
  "t < next_ref st \<Longrightarrow> tt_heap (ttmodels_loop tool rs st) t = tt_heap st t"
  by (induction rs arbitrary: st) (auto simp: Let_def split: data_renderer.splits)

lemma loop_map_other:
  "k \<notin> set (glyph_renderers rs) \<Longrightarrow>
     map_of (ttmodels (ttmodels_loop tool rs st)) k = map_of (ttmodels st) k"
proof (induction rs arbitrary: st)
  case Nil
  then show ?case by simp
next
  case (Cons r rs)
  then show ?case
    by (cases r) (auto simp: Let_def map_of_map_set)
qed

lemma loop_map_dom:
  "map_of (ttmodels st) k \<noteq> None \<Longrightarrow> map_of (ttmodels (ttmodels_loop tool rs st)) k \<noteq> None"
proof (induction rs arbitrary: st)
  case Nil
  then show ?case by simp
next
  case (Cons r rs)
  have "\<exists>st2. ttmodels_loop tool (r # rs) st = ttmodels_loop tool rs st2
           \<and> map_of (ttmodels st2) k \<noteq> None"
    using Cons.prems by (cases r) (auto simp: Let_def map_of_map_set)
  then show ?case
    using Cons.IH by auto
qed

lemma loop_append:
  "ttmodels_loop tool (rs1 @ rs2) st = ttmodels_loop tool rs2 (ttmodels_loop tool rs1 st)"
  by (induction rs1 arbitrary: st) (auto simp: Let_def)

text \<open>
  Claim C6, as the code has it.  After a rebuild with a tooltip specification that is not
  \<^verbatim>\<open>null\<close>, the node renderer and the edge renderer of every graph renderer among the computed
  renderers have an entry in the map, and the rebuild has created one tooltip for each
  computed renderer.  The two entries of a graph renderer hold the same tooltip object, the
  one created for the graph renderer, unless a later renderer of the list registers the
  node or the edge renderer again.
\<close>

theorem graph_renderer_shares_tooltip:
  assumes "tooltips tool \<noteq> None"
    and "computed_renderers env = rs1 @ Graph_renderer g n e # rs2"
  shows "map_of (ttmodels (update_ttmodels tool env st)) n \<noteq> None
       \<and> map_of (ttmodels (update_ttmodels tool env st)) e \<noteq> None
       \<and> next_ref (update_ttmodels tool env st) = next_ref st + length (computed_renderers env)
       \<and> (n \<notin> set (glyph_renderers rs2) \<and> e \<notin> set (glyph_renderers rs2) \<longrightarrow>
            map_of (ttmodels (update_ttmodels tool env st)) n = Some (next_ref st + length rs1)
          \<and> map_of (ttmodels (update_ttmodels tool env st)) e = Some (next_ref st + length rs1)
          \<and> tt_heap (update_ttmodels tool env st) (next_ref st + length rs1)
              = Some (new_tooltip tool))"
proof -
  define st0 where "st0 = st\<lparr>ttmodels := []\<rparr>"
  define sa where "sa = ttmodels_loop tool rs1 st0"
  define t where "t = next_ref st + length rs1"
  define sb where "sb = sa\<lparr>tt_heap := (tt_heap sa)(t \<mapsto> new_tooltip tool), next_ref := Suc t,
                          ttmodels := map_set e t (map_set n t (ttmodels sa))\<rparr>"
  have ta: "next_ref sa = t"
    by (simp add: sa_def t_def st0_def loop_next_ref)
  have upd: "update_ttmodels tool env st = ttmodels_loop tool rs2 sb"
    using assms ta
    by (auto simp: update_ttmodels_def loop_append Let_def sb_def sa_def st0_def)
  have mn: "map_of (ttmodels sb) n = Some t" and me: "map_of (ttmodels sb) e = Some t"
    by (simp_all add: sb_def map_of_map_set)
  have hp: "tt_heap sb t = Some (new_tooltip tool)" and nr: "t < next_ref sb"
    by (simp_all add: sb_def)
  have "map_of (ttmodels (ttmodels_loop tool rs2 sb)) n \<noteq> None"
    by (rule loop_map_dom) (simp add: mn)
  moreover have "map_of (ttmodels (ttmodels_loop tool rs2 sb)) e \<noteq> None"
    by (rule loop_map_dom) (simp add: me)
  moreover have "next_ref (ttmodels_loop tool rs2 sb) = next_ref st + length (computed_renderers env)"
    using assms(2) by (simp add: loop_next_ref sb_def t_def)
  moreover have "tt_heap (ttmodels_loop tool rs2 sb) t = Some (new_tooltip tool)"
    using loop_heap_old [OF nr] hp by simp
  ultimately show ?thesis
    unfolding upd t_def [symmetric]
    by (simp add: loop_map_other mn me)
qed

text \<open>
  The sample plot: the node renderer 2 and the edge renderer 3 of the graph renderer both
  hold the tooltip object 9.
\<close>

theorem graph_renderer_shares_tooltip_witness:
  "map_of (ttmodels (update_ttmodels sample_tool sample_env sample_view)) 2 = Some 9
   \<and> map_of (ttmodels (update_ttmodels sample_tool sample_env sample_view)) 3 = Some 9
   \<and> tt_heap (update_ttmodels sample_tool sample_env sample_view) 9
       = Some (new_tooltip sample_tool)"
proof -
  have a: "tooltips sample_tool \<noteq> None"
    and c: "computed_renderers sample_env = [Glyph_renderer 0] @ Graph_renderer 1 2 3 # []"
    by (simp_all add: sample_tool_def sample_env_def)
  show ?thesis
    using graph_renderer_shares_tooltip [OF a c, of sample_view]
    by (simp add: sample_view_def)
qed

text \<open>
  Against claim C6 as stated: the node and the edge renderer do not get a tooltip each.
  Two tooltips are created for the two computed renderers (objects 8 and 9), and the map
  holds object 9 for both the node and the edge renderer.
\<close>

theorem graph_renderer_own_tooltip_counterexample:
  "map_of (ttmodels (update_ttmodels sample_tool sample_env sample_view)) 2 = Some 9
   \<and> map_of (ttmodels (update_ttmodels sample_tool sample_env sample_view)) 3 = Some 9
   \<and> ttmodels (update_ttmodels sample_tool sample_env sample_view) = [(0, 8), (2, 9), (3, 9)]
   \<and> next_ref (update_ttmodels sample_tool sample_env sample_view) = 10"
  by (simp add: update_ttmodels_def sample_tool_def sample_env_def sample_view_def Let_def)

subsection \<open>Moves outside the frame\<close>

lemma clear_at_at:
  "clear_at s h t = (if t = s then map_option clear (h t) else h t)"
  by (simp add: clear_at_def split: option.splits)

lemma clear_twice: "clear (clear tt) = clear tt"
  by (simp add: clear_def)

lemma clear_all_at:
  "clear_all ps h t = (if t \<in> snd ` set ps then map_option clear (h t) else h t)"
proof (induction ps arbitrary: h)
  case Nil
  then show ?case by simp
next
  case (Cons p ps)
  show ?case
    by (cases "h t") (auto simp: Cons.IH clear_at_at clear_twice)
qed

lemma inspect_renderers_frame:
  "ttmodels (inspect_renderers env g rs st) = ttmodels st"
  "tt_heap (inspect_renderers env g rs st) = tt_heap st"
  "next_ref (inspect_renderers env g rs st) = next_ref st"
  by (induction rs arbitrary: st) (auto split: option.splits)

lemma inspect_renderers_calls:
  "calls (inspect_renderers env g rs st) = calls st @ inspect_calls env g rs"
  by (induction rs arbitrary: st) (auto split: option.splits)

lemma inspect_renderers_inspectors:
  "inspectors (inspect_renderers env g rs st) r =
     (if r \<in> renderer_ref ` {x \<in> set rs. renderer_view_of env (renderer_ref x) \<noteq> None}
      then (if at_infinity g then empty_selection else hit_test env r g)
      else inspectors st r)"
proof (induction rs arbitrary: st)
  case Nil
  then show ?case by simp
next
  case (Cons x rs)
  show ?case
    by (cases "renderer_view_of env (renderer_ref x)")
       (auto simp: Cons.IH sm_inspect_def)
qed

lemma is_empty_empty_selection: "is_empty empty_selection"
  by (simp add: is_empty_def empty_selection_def)

text \<open>
  Claim C4, as the code has it.  When the tool is active and the pointer is outside the
  frame's box, the move handler clears: the inspection is run with the geometry at
  \<open>(Infinity, Infinity)\<close> on every computed renderer that has a view, so that the inspection
  result of each of them is empty (a renderer without a view is passed over and keeps its
  result); the map is left as it is, and every tooltip of the map has its position set to
  \<^verbatim>\<open>null\<close>, its other properties and the tooltips outside the map untouched.  When the tool is
  not active the handler changes nothing.
\<close>

theorem move_outside_clears:
  "(active tool \<and> \<not> contains (frame_bbox env) sx sy \<longrightarrow>
      calls (move tool env sx sy st) =
        calls st
        @ inspect_calls env (make_geometry tool Pos_Inf Pos_Inf) (computed_renderers env)
        @ (if has_callback tool
           then callback_calls env (make_geometry tool Pos_Inf Pos_Inf) (computed_renderers env)
           else [])
    \<and> geom_sx (make_geometry tool Pos_Inf Pos_Inf) = Pos_Inf
    \<and> geom_sy (make_geometry tool Pos_Inf Pos_Inf) = Pos_Inf
    \<and> (\<forall>r \<in> set (computed_renderers env).
          renderer_view_of env (renderer_ref r) \<noteq> None \<longrightarrow>
            inspectors (move tool env sx sy st) (renderer_ref r) = empty_selection
            \<and> is_empty (inspectors (move tool env sx sy st) (renderer_ref r)))
    \<and> (\<forall>r. r \<notin> renderer_ref `
                {x \<in> set (computed_renderers env). renderer_view_of env (renderer_ref x) \<noteq> None}
          \<longrightarrow> inspectors (move tool env sx sy st) r = inspectors st r)
    \<and> ttmodels (move tool env sx sy st) = ttmodels st
    \<and> tt_heap (move tool env sx sy st) =
        (\<lambda>t. if t \<in> snd ` set (ttmodels st) then map_option clear (tt_heap st t)
             else tt_heap st t))
   \<and> (\<not> active tool \<longrightarrow> move tool env sx sy st = st)"
proof -
  have inf: "at_infinity (make_geometry tool Pos_Inf Pos_Inf)"
    by (simp add: at_infinity_def make_geometry_def geom_sx_def geom_sy_def)
  show ?thesis
    using inf
    by (auto simp: move_def hover_clear_def inspect_def emit_callback_def Let_def clear_all_at
        make_geometry_def geom_sx_def geom_sy_def fun_eq_iff inspect_renderers_frame
        inspect_renderers_calls inspect_renderers_inspectors is_empty_empty_selection)
qed

text \<open>
  The sample plot with the pointer at \<open>(500, 5)\<close>: one inspection at infinity, an empty
  result for renderer 0, and tooltip 7 hidden.
\<close>

theorem move_outside_clears_witness:
  "calls (move sample_tool sample_env (Num 500) (Num 5) sample_view)
     = [Inspect_call 0 (Point_geometry Pos_Inf Pos_Inf)]
   \<and> is_empty (inspectors (move sample_tool sample_env (Num 500) (Num 5) sample_view) 0)
   \<and> ttmodels (move sample_tool sample_env (Num 500) (Num 5) sample_view) = [(0, 7)]
   \<and> tt_heap (move sample_tool sample_env (Num 500) (Num 5) sample_view) 7
       = Some (sample_tooltip\<lparr>position := None\<rparr>)
   \<and> move (sample_tool\<lparr>active := False\<rparr>) sample_env (Num 500) (Num 5) sample_view
       = sample_view"
proof -
  have a: "active sample_tool"
    and o: "\<not> contains (frame_bbox sample_env) (Num 500) (Num 5)"
    and v: "Glyph_renderer 0 \<in> set (computed_renderers sample_env)"
      "renderer_view_of sample_env (renderer_ref (Glyph_renderer 0)) \<noteq> None"
    by (simp_all add: sample_tool_def contains_def js_le_def sample_env_def sample_box_def)
  from move_outside_clears [of sample_tool sample_env "Num 500" "Num 5" sample_view] a o
  have m: "calls (move sample_tool sample_env (Num 500) (Num 5) sample_view) =
        calls sample_view
        @ inspect_calls sample_env (make_geometry sample_tool Pos_Inf Pos_Inf)
            (computed_renderers sample_env)
        @ (if has_callback sample_tool
           then callback_calls sample_env (make_geometry sample_tool Pos_Inf Pos_Inf)
                  (computed_renderers sample_env)
           else [])"
    and e: "\<forall>r \<in> set (computed_renderers sample_env).
          renderer_view_of sample_env (renderer_ref r) \<noteq> None \<longrightarrow>
            inspectors (move sample_tool sample_env (Num 500) (Num 5) sample_view) (renderer_ref r)
              = empty_selection
            \<and> is_empty (inspectors (move sample_tool sample_env (Num 500) (Num 5) sample_view)
                  (renderer_ref r))"
    and t: "ttmodels (move sample_tool sample_env (Num 500) (Num 5) sample_view)
              = ttmodels sample_view"
    and h: "tt_heap (move sample_tool sample_env (Num 500) (Num 5) sample_view) =
        (\<lambda>t. if t \<in> snd ` set (ttmodels sample_view) then map_option clear (tt_heap sample_view t)
             else tt_heap sample_view t)"
    by blast+
  have i: "is_empty (inspectors (move sample_tool sample_env (Num 500) (Num 5) sample_view) 0)"
    using e v by fastforce
  have n: "move (sample_tool\<lparr>active := False\<rparr>) sample_env (Num 500) (Num 5) sample_view
       = sample_view"
    using move_outside_clears [of "sample_tool\<lparr>active := False\<rparr>" sample_env "Num 500" "Num 5"
        sample_view]
    by simp
  show ?thesis
    using m t h i n
    by (simp add: sample_tool_def sample_env_def sample_view_def make_geometry_def clear_def)
qed

text \<open>
  Against claim C4 as stated, for a move to \<open>(500, 5)\<close>, outside the frame.  With the tool
  inactive, nothing is inspected and tooltip 7 of the map stays shown at \<open>(3,4)\<close>.  With the
  tool active, the graph renderer 1, which has no view, is not inspected: its inspection
  result is still the sample selection, which is not empty.
\<close>

theorem move_inactive_counterexample:
  "\<not> contains (frame_bbox sample_env) (Num 500) (Num 5)
   \<and> map_of (ttmodels sample_view) 0 = Some 7
   \<and> map_option position
        (tt_heap (move (sample_tool\<lparr>active := False\<rparr>) sample_env (Num 500) (Num 5) sample_view) 7)
       = Some (Some (At_coords (Num 3) (Num 4)))
   \<and> calls (move (sample_tool\<lparr>active := False\<rparr>) sample_env (Num 500) (Num 5) sample_view) = []
   \<and> active sample_tool
   \<and> Graph_renderer 1 2 3 \<in> set (computed_renderers sample_env)
   \<and> inspectors (move sample_tool sample_env (Num 500) (Num 5) sample_view) 1 = sample_selection
   \<and> \<not> is_empty sample_selection"
  by (simp add: move_def contains_def js_le_def sample_env_def sample_box_def sample_view_def
      sample_tooltip_def sample_tool_def hover_clear_def inspect_def emit_callback_def
      sm_inspect_def is_empty_def sample_selection_def Let_def)

subsection \<open>Errors of the update step\<close>

lemma multiline_hits_no_policy:
  "line_policy tool = No_line_policy \<Longrightarrow>
     multiline_hits tool render r rv geometry sub i js
       = (if js = [] then Inr [] else Inl Shouldnt_have_happened)"
  by (cases js) (simp_all add: multiline_resolve_def Let_def)

lemma index_hits_no_policy:
  assumes "line_policy tool = No_line_policy"
    and "g_kind (glyph rv) = MultiLine_view"
    and "multiline_indices sub \<noteq> []"
    and "\<forall>i \<in> set is. map_of (multiline_indices sub) i \<noteq> None"
  shows "index_hits tool render r rv geometry sub is =
           (if \<exists>i \<in> set is. map_of (multiline_indices sub) i \<noteq> Some []
            then Inl Shouldnt_have_happened else Inr [])"
  using assms(4)
proof (induction "is")
  case Nil
  then show ?case by simp
next
  case (Cons i "is")
  then obtain js where js: "map_of (multiline_indices sub) i = Some js"
    by auto
  show ?case
    using Cons assms(1-3) js
    by (cases "js = []") (auto simp: multiline_hits_no_policy)
qed

lemma multiline_hits_error:
  "multiline_hits tool render r rv geometry sub i js = Inl e \<Longrightarrow>
     e = Shouldnt_have_happened \<and> line_policy tool = No_line_policy"
proof (induction js)
  case Nil
  then show ?case by simp
next
  case (Cons j js)
  then show ?case
    by (cases "line_policy tool")
       (auto simp: multiline_resolve_def Let_def split: sum.splits prod.splits)
qed

lemma index_hits_error:
  "index_hits tool render r rv geometry sub is = Inl e \<Longrightarrow>
     g_kind (glyph rv) = MultiLine_view \<and> multiline_indices sub \<noteq> []
     \<and> (e = Shouldnt_have_happened \<longrightarrow> line_policy tool = No_line_policy)"
proof (induction "is")
  case Nil
  then show ?case by simp
next
  case (Cons i "is")
  then show ?case
    by (auto split: if_splits option.splits sum.splits dest: multiline_hits_error)
qed

text \<open>
  Claim C7.  When the update step gets as far as resolving the hits of a multi-line (the
  tool is active, the geometry a point or a span, the renderer not ignored as muted, with a
  tooltip, a selection that is not empty and a view), every selected line has an entry of
  segment indices and some selected line \<open>i\<close> has a segment \<open>j\<close>, and the line policy is none of
  \<^verbatim>\<open>interp\<close>, \<^verbatim>\<open>prev\<close>, \<^verbatim>\<open>next\<close>, \<^verbatim>\<open>nearest\<close>, then the step raises the error "shouldn't have
  happened".  An error leaves the update step only from the hits of a multi-line, and this
  error only under such a line policy; an empty selection without a view and a renderer
  without a view end the step without an error.
\<close>

theorem multiline_default_policy_raises:
  "(active tool \<and> is_point_or_span geometry \<and> \<not> (muted_policy tool = Ignore \<and> muted r)
      \<and> map_of (ttmodels st) (r_ref r) = Some t
      \<and> \<not> (is_empty (inspected r) \<and> sel_view (inspected r) = None)
      \<and> renderer_view_of env (r_ref r) = Some rv
      \<and> g_kind (glyph rv) = MultiLine_view
      \<and> line_policy tool = No_line_policy
      \<and> sub = convert_selection_to_subset r (inspected r)
      \<and> (\<forall>i \<in> set (indices sub). map_of (multiline_indices sub) i \<noteq> None)
      \<and> i \<in> set (indices sub) \<and> map_of (multiline_indices sub) i = Some (j # js)
    \<longrightarrow> update tool env render r geometry st = Inl Shouldnt_have_happened)
   \<and> (update tool env render r geometry st = Inl e
    \<longrightarrow> (\<exists>rv. renderer_view_of env (r_ref r) = Some rv \<and> g_kind (glyph rv) = MultiLine_view)
        \<and> multiline_indices (convert_selection_to_subset r (inspected r)) \<noteq> []
        \<and> (e = Shouldnt_have_happened \<longrightarrow> line_policy tool = No_line_policy))
   \<and> (line_policy tool \<noteq> No_line_policy \<longrightarrow>
        update tool env render r geometry st \<noteq> Inl Shouldnt_have_happened)
   \<and> (is_empty (inspected r) \<and> sel_view (inspected r) = None \<or> renderer_view_of env (r_ref r) = None
    \<longrightarrow> (\<exists>st'. update tool env render r geometry st = Inr st'))"
proof -
  have one: "update tool env render r geometry st = Inl Shouldnt_have_happened"
    if a: "active tool" "is_point_or_span geometry" "\<not> (muted_policy tool = Ignore \<and> muted r)"
      "map_of (ttmodels st) (r_ref r) = Some t"
      "\<not> (is_empty (inspected r) \<and> sel_view (inspected r) = None)"
      "renderer_view_of env (r_ref r) = Some rv"
      and k: "g_kind (glyph rv) = MultiLine_view" "line_policy tool = No_line_policy"
      and s: "sub = convert_selection_to_subset r (inspected r)"
      and al: "\<forall>i \<in> set (indices sub). map_of (multiline_indices sub) i \<noteq> None"
      and ex: "i \<in> set (indices sub)" "map_of (multiline_indices sub) i = Some (j # js)"
  proof -
    have ne: "multiline_indices sub \<noteq> []"
      using ex(2) by auto
    have "\<exists>i \<in> set (indices sub). map_of (multiline_indices sub) i \<noteq> Some []"
      using ex by (intro bexI [of _ i]) simp_all
    then have "index_hits tool render r rv geometry sub (indices sub) = Inl Shouldnt_have_happened"
      using index_hits_no_policy [OF k(2) k(1) ne al] by simp
    then show ?thesis
      using a s by (auto simp: update_def collect_hits_def Let_def)
  qed
  have two: "(\<exists>rv. renderer_view_of env (r_ref r) = Some rv \<and> g_kind (glyph rv) = MultiLine_view)
        \<and> multiline_indices (convert_selection_to_subset r (inspected r)) \<noteq> []
        \<and> (e = Shouldnt_have_happened \<longrightarrow> line_policy tool = No_line_policy)"
    if "update tool env render r geometry st = Inl e" for e
    using that
    by (auto simp: update_def collect_hits_def Let_def
        split: if_splits option.splits sum.splits dest: index_hits_error)
  have three: "\<exists>st'. update tool env render r geometry st = Inr st'"
    if "is_empty (inspected r) \<and> sel_view (inspected r) = None \<or> renderer_view_of env (r_ref r) = None"
    using that
    by (auto simp: update_def Let_def split: option.splits)
  show ?thesis
    using one two three by blast
qed

text \<open>
  The sample plot: renderer 0 with segment 0 of line 0 selected, under the line policy
  \<^verbatim>\<open>none\<close>.
\<close>

theorem multiline_default_policy_raises_witness:
  "update sample_tool sample_env (\<lambda>_. Some ''row'') sample_renderer
       (Point_geometry (Num 1) (Num 2)) sample_view = Inl Shouldnt_have_happened"
  using multiline_default_policy_raises [of sample_tool "Point_geometry (Num 1) (Num 2)"
      sample_renderer sample_view 7 sample_env sample_rview "inspected sample_renderer" 0 0 "[]"
      "\<lambda>_. Some ''row''"]
  by (simp add: sample_tool_def sample_renderer_def sample_view_def sample_env_def
      sample_rview_def sample_glyph_def sample_selection_def is_point_or_span_def is_empty_def)

section \<open>Properties of the rendered rows\<close>

lemma writes_at:
  "j < length rows \<Longrightarrow> set_text j s rows = Inr (rows[j := (rows ! j)\<lparr>value_el := [Text_piece s]\<rparr>])"
  "j < length rows \<Longrightarrow> show_swatch j css rows
      = Inr (rows[j := (rows ! j)\<lparr>swatch_background := Some css, swatch_displayed := True\<rparr>])"
  "j < length rows \<Longrightarrow> append_nodes j ns rows
      = Inr (rows[j := (rows ! j)\<lparr>value_el := value_el (rows ! j) @ map Node_piece ns\<rparr>])"
  by (simp_all add: set_text_def show_swatch_def append_nodes_def)

lemma render_row_at:
  assumes "j < length rows"
  shows "render_row c ds vs j v rows = Inr (rows[j := render_cell c ds vs v (rows ! j)])"
  using assms
  by (simp add: render_row_def render_cell_def writes_at Let_def
      split: option.splits placeholder_result.splits prod.splits)

lemma render_rows_at:
  "j + length ts \<le> length rows \<Longrightarrow>
     \<exists>rows'. render_rows c ds vs j ts rows = Inr rows' \<and> length rows' = length rows
       \<and> (\<forall>k < j. rows' ! k = rows ! k)
       \<and> (\<forall>k < length ts. rows' ! (j + k) = render_cell c ds vs (snd (ts ! k)) (rows ! (j + k)))"
proof (induction ts arbitrary: j rows)
  case Nil
  then show ?case by simp
next
  case (Cons t ts)
  define rows1 where "rows1 = rows[j := render_cell c ds vs (snd t) (rows ! j)]"
  have j: "j < length rows" using Cons.prems by simp
  have step: "render_rows c ds vs j (t # ts) rows = render_rows c ds vs (Suc j) ts rows1"
    by (simp add: render_row_at [OF j] rows1_def)
  have "Suc j + length ts \<le> length rows1"
    using Cons.prems by (simp add: rows1_def)
  from Cons.IH [OF this] obtain rows' where r:
    "render_rows c ds vs (Suc j) ts rows1 = Inr rows'" "length rows' = length rows1"
    "\<forall>k < Suc j. rows' ! k = rows1 ! k"
    "\<forall>k < length ts. rows' ! (Suc j + k) = render_cell c ds vs (snd (ts ! k)) (rows1 ! (Suc j + k))"
    by blast
  have a: "\<forall>k < j. rows' ! k = rows ! k"
    using r(3) by (simp add: rows1_def)
  have b: "rows' ! (j + k) = render_cell c ds vs (snd ((t # ts) ! k)) (rows ! (j + k))"
    if "k < length (t # ts)" for k
  proof (cases k)
    case 0
    then show ?thesis using r(3) j by (simp add: rows1_def)
  next
    case (Suc k')
    then show ?thesis using r(4) that by (simp add: rows1_def)
  qed
  show ?case
    using step r(1,2) a b by (simp add: rows1_def)
qed

lemma render_template_rows:
  "\<exists>rows. render_template c (create_template tts) tts ds vs = Inr rows
      \<and> length rows = length tts
      \<and> (\<forall>k < length tts. rows ! k = render_cell c ds vs (snd (tts ! k)) (create_template tts ! k))"
  using render_rows_at [of 0 tts "create_template tts" c ds vs]
  by (auto simp: render_template_def create_template_def)

lemma create_template_nth:
  "j < length tts \<Longrightarrow> create_template tts ! j =
     \<lparr>row_label = (if fst (tts ! j) \<noteq> [] then fst (tts ! j) @ '': '' else []),
      value_el = [], swatch_background = None, swatch_displayed = False\<rparr>"
  by (simp add: create_template_def split: prod.splits)

lemma cell_swatch_unknown:
  assumes "swatch_match v = Some colname" "color_match v = None" "ds colname = None"
  shows "render_cell c ds vs v row = row\<lparr>value_el := [Text_piece (colname @ '' unknown'')]\<rparr>"
  using assms by (simp add: render_cell_def render_row_def writes_at)

lemma cell_swatch_known:
  assumes "swatch_match v = Some colname" "color_match v = None" "ds colname = Some column"
    "v_index vs = Some k" "column_at column k = Some col"
  shows "render_cell c ds vs v row
           = row\<lparr>swatch_background := Some (color2css c col), swatch_displayed := True\<rparr>"
  using assms by (simp add: render_cell_def render_row_def writes_at)

lemma cell_color_known:
  assumes "swatch_match v = None" "color_match v = Some (opts, colname)" "ds colname = Some column"
    "v_index vs = Some k" "column_at column k = Some col"
  shows "value_el (render_cell c ds vs v row)
           = [Text_piece (if has_substring ''hex'' opts then color2hex c col else color2css c col)]"
  using assms by (simp add: render_cell_def render_row_def writes_at)

text \<open>The two patterns on sample values.\<close>

lemma swatch_match_fill: "swatch_match ''$swatch:fill'' = Some ''fill''"
  by (simp add: swatch_match_def is_word_char_def)

lemma color_match_swatch_fill: "color_match ''$swatch:fill'' = None"
  by simp

lemma swatch_match_nope: "swatch_match ''$swatch:nope'' = Some ''nope''"
  by (simp add: swatch_match_def is_word_char_def)

lemma color_match_swatch_nope: "color_match ''$swatch:nope'' = None"
  by simp

lemma color_match_options: "color_match ''$color[hex, swatch]:fill'' = Some (''[hex, swatch]'', ''fill'')"
  by (simp add: color_match_at_def is_word_char_def is_line_terminator_def)

lemma color_match_leftmost: "color_match ''$color:fill and $color[a]:b]:c'' = Some ('''', ''fill'')"
  by (simp add: color_match_at_def is_word_char_def is_line_terminator_def)

lemma color_match_greedy: "color_match ''x$color[a]:b]:c d'' = Some (''[a]:b]'', ''c'')"
  by (simp add: color_match_at_def is_word_char_def is_line_terminator_def)

text \<open>
  Claim C5, as the code has it.  Rendering the template compiled from the rows never
  throws and yields one row for each.  For a row whose value holds a \<^verbatim>\<open>$swatch:\<close> directive and
  no \<^verbatim>\<open>$color\<close> directive: when the column is absent, the value text is the column name
  followed by \<^verbatim>\<open> unknown\<close> and the swatch stays hidden; when the column exists and holds a
  color at the index, the swatch element is displayed with the CSS text of that color as
  its background, and the value element stays empty.  The CSS text (or the hex text, under
  the option \<^verbatim>\<open>hex\<close>) becomes the value text for a \<^verbatim>\<open>$color\<close> directive.
\<close>

theorem swatch_directive_rendering:
  "\<exists>rows. render_template c (create_template tts) tts ds vs = Inr rows
     \<and> length rows = length tts
     \<and> (j < length tts \<and> swatch_match (snd (tts ! j)) = Some colname
          \<and> color_match (snd (tts ! j)) = None \<and> ds colname = None
        \<longrightarrow> value_el (rows ! j) = [Text_piece (colname @ '' unknown'')]
            \<and> \<not> swatch_displayed (rows ! j))
     \<and> (j < length tts \<and> swatch_match (snd (tts ! j)) = Some colname
          \<and> color_match (snd (tts ! j)) = None \<and> ds colname = Some column
          \<and> v_index vs = Some k \<and> column_at column k = Some col
        \<longrightarrow> value_el (rows ! j) = []
            \<and> swatch_background (rows ! j) = Some (color2css c col)
            \<and> swatch_displayed (rows ! j))
     \<and> (j < length tts \<and> swatch_match (snd (tts ! j)) = None
          \<and> color_match (snd (tts ! j)) = Some (opts, colname) \<and> ds colname = Some column
          \<and> v_index vs = Some k \<and> column_at column k = Some col
        \<longrightarrow> value_el (rows ! j)
              = [Text_piece (if has_substring ''hex'' opts then color2hex c col
                             else color2css c col)])"
proof -
  obtain rows where r: "render_template c (create_template tts) tts ds vs = Inr rows"
    "length rows = length tts"
    "\<forall>k < length tts. rows ! k = render_cell c ds vs (snd (tts ! k)) (create_template tts ! k)"
    using render_template_rows by blast
  show ?thesis
    using r
    by (auto simp: cell_swatch_unknown cell_swatch_known cell_color_known create_template_nth)
qed

text \<open>
  The sample source: the column \<^verbatim>\<open>fill\<close> through \<^verbatim>\<open>$swatch:\<close>, an absent column, and the
  column \<^verbatim>\<open>fill\<close> through \<^verbatim>\<open>$color[hex, swatch]:\<close>.
\<close>

theorem swatch_directive_rendering_witness:
  "(\<exists>rows. render_template sample_collaborators (create_template [(''color'', ''$swatch:fill'')])
       [(''color'', ''$swatch:fill'')] sample_source sample_vars = Inr rows
     \<and> value_el (rows ! 0) = [] \<and> swatch_background (rows ! 0) = Some ''rgb(0, 0, 0)''
     \<and> swatch_displayed (rows ! 0))
   \<and> (\<exists>rows. render_template sample_collaborators (create_template [(''color'', ''$swatch:nope'')])
       [(''color'', ''$swatch:nope'')] sample_source sample_vars = Inr rows
     \<and> value_el (rows ! 0) = [Text_piece ''nope unknown''])
   \<and> (\<exists>rows. render_template sample_collaborators
       (create_template [(''color'', ''$color[hex, swatch]:fill'')])
       [(''color'', ''$color[hex, swatch]:fill'')] sample_source sample_vars = Inr rows
     \<and> value_el (rows ! 0) = [Text_piece ''#000000''])"
proof -
  have a: "sample_source ''fill'' = Some [Some (Color_uint32 255)]"
    and b: "sample_source ''nope'' = None"
    and i: "v_index sample_vars = Some 0"
    and k: "column_at [Some (Color_uint32 255)] 0 = Some (Color_uint32 255)"
    and h: "has_substring ''hex'' ''[hex, swatch]''"
    and noswatch: "swatch_match ''$color[hex, swatch]:fill'' = None"
    by (simp_all add: sample_source_def sample_vars_def column_at_def has_substring_def
        swatch_match_def)
  note facts = a b i k h noswatch swatch_match_fill color_match_swatch_fill swatch_match_nope color_match_swatch_nope color_match_options sample_collaborators_def
  have t1: "\<exists>rows. render_template sample_collaborators (create_template [(''color'', ''$swatch:fill'')])
       [(''color'', ''$swatch:fill'')] sample_source sample_vars = Inr rows
     \<and> value_el (rows ! 0) = [] \<and> swatch_background (rows ! 0) = Some ''rgb(0, 0, 0)''
     \<and> swatch_displayed (rows ! 0)"
    using swatch_directive_rendering [of sample_collaborators "[(''color'', ''$swatch:fill'')]"
        sample_source sample_vars 0 "''fill''" "[Some (Color_uint32 255)]" 0 "Color_uint32 255"]
    by (simp add: facts del: color_match.simps) blast
  have t2: "\<exists>rows. render_template sample_collaborators (create_template [(''color'', ''$swatch:nope'')])
       [(''color'', ''$swatch:nope'')] sample_source sample_vars = Inr rows
     \<and> value_el (rows ! 0) = [Text_piece ''nope unknown'']"
    using swatch_directive_rendering [of sample_collaborators "[(''color'', ''$swatch:nope'')]"
        sample_source sample_vars 0 "''nope''"]
    by (simp add: facts del: color_match.simps) blast
  have t3: "\<exists>rows. render_template sample_collaborators
       (create_template [(''color'', ''$color[hex, swatch]:fill'')])
       [(''color'', ''$color[hex, swatch]:fill'')] sample_source sample_vars = Inr rows
     \<and> value_el (rows ! 0) = [Text_piece ''#000000'']"
    using swatch_directive_rendering [of sample_collaborators "[(''color'', ''$color[hex, swatch]:fill'')]"
        sample_source sample_vars 0 "''fill''" "[Some (Color_uint32 255)]" 0 "Color_uint32 255"
        "''[hex, swatch]''"]
    by (simp add: facts del: color_match.simps) blast
  show ?thesis
    using t1 t2 t3 by blast
qed

text \<open>
  Against claim C5 as stated: for the row \<^verbatim>\<open>$swatch:fill\<close> on the existing column of the
  number 255 at index 0, the rendered value text is empty, not the CSS text of the color;
  the CSS text is the background of the swatch element.
\<close>

theorem swatch_value_text_counterexample:
  "render_template sample_collaborators (create_template [(''color'', ''$swatch:fill'')])
       [(''color'', ''$swatch:fill'')] sample_source sample_vars
     = Inr [\<lparr>row_label = ''color: '', value_el = [],
             swatch_background = Some ''rgb(0, 0, 0)'', swatch_displayed = True\<rparr>]
   \<and> text_content [] \<noteq> color2css sample_collaborators (Color_uint32 255)"
  by (simp add: render_template_def create_template_def render_row_def swatch_match_fill color_match_swatch_fill
      sample_source_def sample_vars_def sample_collaborators_def column_at_def show_swatch_def
      text_content_def)

end
